theory Spec2Isabelle
  imports Main "HOL-Library.Word"
begin

section \<open>Thrown values and the uniform error shape\<close>

text \<open>
  The library wraps the Azure storage SDK. Everything it throws itself is a
  \<^verbatim>\<open>StorageError\<close> (util.js): an \<^verbatim>\<open>Error\<close> whose constructor stores
  its first argument in the property \<^verbatim>\<open>code\<close> and hands the second to
  \<^verbatim>\<open>super\<close> as the message. Failures of the SDK are error objects carrying
  a message and, for HTTP failures, a numeric \<^verbatim>\<open>statusCode\<close>; a
  \<^verbatim>\<open>TypeError\<close> or \<^verbatim>\<open>RangeError\<close> has none.

  A \<^verbatim>\<open>StorageError\<close> has the properties \<^verbatim>\<open>code\<close> and
  \<^verbatim>\<open>message\<close> and no property \<^verbatim>\<open>statusCode\<close>: reading it gives
  \<^verbatim>\<open>undefined\<close>, here \<open>None\<close>.
\<close>

datatype exn =
    StorageError int string
  | SdkError "int option" string

fun statusCode :: "exn \<Rightarrow> int option" where
  "statusCode (StorageError c m) = None"
| "statusCode (SdkError sc m) = sc"

fun message :: "exn \<Rightarrow> string" where
  "message (StorageError c m) = m"
| "message (SdkError sc m) = m"

fun code :: "exn \<Rightarrow> int option" where
  "code (StorageError c m) = Some c"
| "code (SdkError sc m) = None"

text \<open>
  \<^verbatim>\<open>error.statusCode || 500\<close>: the left operand when it is truthy, the right
  one when it is \<^verbatim>\<open>undefined\<close> or the number zero.
\<close>

definition js_or :: "int option \<Rightarrow> int \<Rightarrow> int" where
  "js_or v d = (case v of None \<Rightarrow> d | Some n \<Rightarrow> if n = 0 then d else n)"

text \<open>
  Every handler of the library is the same line,
  \<^verbatim>\<open>catch (error) { throw new StorageError(error.statusCode || 500, error.message) }\<close>.
\<close>

definition try_catch :: "exn + 'a \<Rightarrow> exn + 'a" where
  "try_catch body =
     (case body of
        Inl error \<Rightarrow> Inl (StorageError (js_or (statusCode error) 500) (message error))
      | Inr v \<Rightarrow> Inr v)"

text \<open>Sequencing inside a \<^verbatim>\<open>try\<close> block: the first throw ends the block.\<close>

definition and_then :: "exn + 'a \<Rightarrow> ('a \<Rightarrow> exn + 'b) \<Rightarrow> exn + 'b" where
  "and_then r f = (case r of Inl e \<Rightarrow> Inl e | Inr v \<Rightarrow> f v)"

text \<open>
  Truthiness of an optional string parameter: \<^verbatim>\<open>undefined\<close>,
  \<^verbatim>\<open>null\<close> (both \<open>None\<close>) and the empty string are falsy.
\<close>

definition truthy :: "string option \<Rightarrow> bool" where
  "truthy v = (case v of None \<Rightarrow> False | Some s \<Rightarrow> s \<noteq> [])"

text \<open>Truthiness of an optional number: \<^verbatim>\<open>null\<close> and zero are falsy.\<close>

definition truthy_num :: "int option \<Rightarrow> bool" where
  "truthy_num v = (case v of None \<Rightarrow> False | Some n \<Rightarrow> n \<noteq> 0)"

section \<open>Data passed to and returned by the SDK\<close>

record response =
  requestId :: string

record send_response =
  send_messageId :: string
  send_requestId :: string

record listed_item =
  name :: string

text \<open>
  An async iterator of the SDK, as the \<^verbatim>\<open>for await\<close> loop sees it: it
  yields items until it ends or throws.
\<close>

datatype 'a paged = PEnd | PItem 'a "'a paged" | PFail exn

text \<open>
  A Node readable stream as its listeners see it: \<^verbatim>\<open>data\<close> events, closed
  by \<^verbatim>\<open>end\<close> or \<^verbatim>\<open>error\<close>. A chunk is a \<^verbatim>\<open>Buffer\<close>.
\<close>

datatype readable = Data "8 word list" readable | End | Error exn

record download_response =
  readableStreamBody :: readable

text \<open>
  Blob content is \<^verbatim>\<open>any\<close> in the source; the two kinds
  \<^verbatim>\<open>Buffer.byteLength\<close> accepts are a string (UTF-16 code units) and a buffer.
\<close>

datatype content = StringContent "16 word list" | BufferContent "8 word list"

text \<open>
  \<^verbatim>\<open>Buffer.byteLength(string)\<close> is the length of the UTF-8 encoding: one byte
  below U+0080, two below U+0800, four for a surrogate pair, three otherwise (a lone
  surrogate is encoded as U+FFFD).
\<close>

fun utf8_length :: "16 word list \<Rightarrow> nat" where
  "utf8_length [] = 0"
| "utf8_length [u] = (if u < 0x80 then 1 else if u < 0x800 then 2 else 3)"
| "utf8_length (u # v # us) =
     (if u < 0x80 then 1 + utf8_length (v # us)
      else if u < 0x800 then 2 + utf8_length (v # us)
      else if 0xD800 \<le> u \<and> u < 0xDC00 \<and> 0xDC00 \<le> v \<and> v < 0xE000 then 4 + utf8_length us
      else 3 + utf8_length (v # us))"

fun byteLength :: "content \<Rightarrow> nat" where
  "byteLength (StringContent s) = utf8_length s"
| "byteLength (BufferContent b) = length b"

text \<open>
  The bytes themselves, independently of the count above: the UTF-8 encoding of a
  string as \<^verbatim>\<open>Buffer.from(string)\<close> writes it. A high surrogate followed by a
  low one is one code point above U+FFFF; any other surrogate is replaced by U+FFFD;
  a code point takes one to four bytes with the usual lead and continuation bits.
  The bytes of a buffer are the buffer.
\<close>

definition utf8_bytes :: "int \<Rightarrow> 8 word list" where
  "utf8_bytes cp =
     (if cp < 0x80 then [of_int cp]
      else if cp < 0x800 then [of_int (0xC0 + cp div 64), of_int (0x80 + cp mod 64)]
      else if cp < 0x10000 then
        [of_int (0xE0 + cp div 4096), of_int (0x80 + cp div 64 mod 64),
         of_int (0x80 + cp mod 64)]
      else
        [of_int (0xF0 + cp div 262144), of_int (0x80 + cp div 4096 mod 64),
         of_int (0x80 + cp div 64 mod 64), of_int (0x80 + cp mod 64)])"

definition scalar_value :: "16 word \<Rightarrow> int" where
  "scalar_value u = (if 0xD800 \<le> u \<and> u < 0xE000 then 0xFFFD else uint u)"

fun code_points :: "16 word list \<Rightarrow> int list" where
  "code_points [] = []"
| "code_points [u] = [scalar_value u]"
| "code_points (u # v # us) =
     (if 0xD800 \<le> u \<and> u < 0xDC00 \<and> 0xDC00 \<le> v \<and> v < 0xE000
      then (0x10000 + (uint u - 0xD800) * 1024 + (uint v - 0xDC00)) # code_points us
      else scalar_value u # code_points (v # us))"

definition utf8_encode :: "16 word list \<Rightarrow> 8 word list" where
  "utf8_encode s = concat (map utf8_bytes (code_points s))"

fun content_bytes :: "content \<Rightarrow> 8 word list" where
  "content_bytes (StringContent s) = utf8_encode s"
| "content_bytes (BufferContent b) = b"

text \<open>
  The object literal handed to the SDK's signing function, as the map from its keys
  to their values.
\<close>

datatype 'perm sas_field = FString string | FPermissions 'perm | FDate "int option"

type_synonym 'perm sas_values = "string \<rightharpoonup> 'perm sas_field"

record list_options =
  prefix :: "string option"

record send_options =
  messageTimeToLive :: "int option"
  visibilityTimeout :: "int option"

section \<open>The SDK as the library uses it\<close>

text \<open>
  The SDK is not part of the repository; each call the library makes is a field of
  this record, returning its result or the error object it throws (or rejects with).
  A field named after a client method stands for the chain that reaches it, for
  example \<^verbatim>\<open>this.client.getContainerClient(containerName).create()\<close>.
  The types of credentials, clients and parsed permissions are the SDK's own.
  A trailing argument the source may leave out is an option: \<open>None\<close> is the
  call without it.
\<close>

record ('cred, 'client, 'perm) blob_sdk =
  blob_StorageSharedKeyCredential :: "string \<Rightarrow> string \<Rightarrow> exn + 'cred"
  BlobServiceClient :: "string \<Rightarrow> 'cred option \<Rightarrow> exn + 'client"
  ContainerClient_create :: "'client \<Rightarrow> string \<Rightarrow> exn + response"
  listContainers :: "'client \<Rightarrow> exn + listed_item paged"
  BlockBlobClient_upload :: "'client \<Rightarrow> string \<Rightarrow> string \<Rightarrow> content \<Rightarrow> nat \<Rightarrow> exn + response"
  listBlobsFlat :: "'client \<Rightarrow> string \<Rightarrow> exn + listed_item paged"
  BlockBlobClient_download :: "'client \<Rightarrow> string \<Rightarrow> string \<Rightarrow> int \<Rightarrow> int option \<Rightarrow> exn + download_response"
  Buffer_toString :: "8 word list \<Rightarrow> string"
  ContainerClient_delete :: "'client \<Rightarrow> string \<Rightarrow> exn + response"
  BlockBlobClient_delete :: "'client \<Rightarrow> string \<Rightarrow> string \<Rightarrow> exn + response"
  BlobSASPermissions_parse :: "string \<Rightarrow> exn + 'perm"
  ContainerSASPermissions_parse :: "string \<Rightarrow> exn + 'perm"
  generateBlobSASQueryParameters :: "'perm sas_values \<Rightarrow> 'cred option \<Rightarrow> exn + string"

record ('cred, 'client, 'perm, 'peek) queue_sdk =
  queue_StorageSharedKeyCredential :: "string \<Rightarrow> string \<Rightarrow> exn + 'cred"
  QueueServiceClient :: "string \<Rightarrow> 'cred option \<Rightarrow> exn + 'client"
  QueueClient_create :: "'client \<Rightarrow> string \<Rightarrow> exn + response"
  listQueues :: "'client \<Rightarrow> list_options option \<Rightarrow> exn + listed_item paged"
  QueueClient_delete :: "'client \<Rightarrow> string \<Rightarrow> exn + response"
  QueueClient_sendMessage :: "'client \<Rightarrow> string \<Rightarrow> string \<Rightarrow> send_options option \<Rightarrow> exn + send_response"
  QueueClient_peekMessages :: "'client \<Rightarrow> string \<Rightarrow> exn + 'peek"
  QueueSASPermissions_parse :: "string \<Rightarrow> exn + 'perm"
  generateQueueSASQueryParameters :: "'perm sas_values \<Rightarrow> 'cred option \<Rightarrow> exn + string"

section \<open>Construction\<close>

text \<open>
  The constructor's parameter object, after its defaults
  (\<^verbatim>\<open>accountKey = null, sasToken = null\<close>), and the instance it builds. In the
  token branch \<^verbatim>\<open>this.sharedKeyCredential\<close> is never assigned.
  The logger is global and not modelled.
\<close>

record params =
  accountName :: "string option"
  accountKey :: "string option"
  sasToken :: "string option"

record ('cred, 'client) facade = params +
  sharedKeyCredential :: "'cred option"
  client :: 'client

text \<open>
  The string an optional parameter holds, for the places that use it as one (template
  literals, arguments of the SDK); the code reaches them only where the parameter is
  truthy.
\<close>

definition str :: "string option \<Rightarrow> string" where
  "str v = (case v of None \<Rightarrow> ''null'' | Some s \<Rightarrow> s)"

definition BlobContainer_new ::
  "('cred, 'client, 'perm) blob_sdk \<Rightarrow> params \<Rightarrow> exn + ('cred, 'client) facade" where
  "BlobContainer_new sdk p =
     try_catch
       (if truthy (accountName p) \<and> truthy (accountKey p) then
          and_then (blob_StorageSharedKeyCredential sdk (str (accountName p)) (str (accountKey p)))
            (\<lambda>cred.
               and_then (BlobServiceClient sdk
                           (''https://'' @ str (accountName p) @ ''.blob.core.windows.net'')
                           (Some cred))
                 (\<lambda>c. Inr \<lparr>accountName = accountName p, accountKey = accountKey p,
                            sasToken = sasToken p, sharedKeyCredential = Some cred,
                            client = c\<rparr>))
        else if truthy (accountName p) \<and> truthy (sasToken p) then
          and_then (BlobServiceClient sdk
                      (''https://'' @ str (accountName p) @ ''.blob.core.windows.net?''
                         @ str (sasToken p))
                      None)
            (\<lambda>c. Inr \<lparr>accountName = accountName p, accountKey = accountKey p,
                       sasToken = sasToken p, sharedKeyCredential = None, client = c\<rparr>)
        else Inl (StorageError 401 ''Missing authentication''))"

definition StorageQueue_new ::
  "('cred, 'client, 'perm, 'peek) queue_sdk \<Rightarrow> params \<Rightarrow> exn + ('cred, 'client) facade" where
  "StorageQueue_new sdk p =
     try_catch
       (if truthy (accountName p) \<and> truthy (accountKey p) then
          and_then (queue_StorageSharedKeyCredential sdk (str (accountName p)) (str (accountKey p)))
            (\<lambda>cred.
               and_then (QueueServiceClient sdk
                           (''https://'' @ str (accountName p) @ ''.queue.core.windows.net'')
                           (Some cred))
                 (\<lambda>c. Inr \<lparr>accountName = accountName p, accountKey = accountKey p,
                            sasToken = sasToken p, sharedKeyCredential = Some cred,
                            client = c\<rparr>))
        else if truthy (accountName p) \<and> truthy (sasToken p) then
          and_then (QueueServiceClient sdk
                      (''https://'' @ str (accountName p) @ ''.queue.core.windows.net?''
                         @ str (sasToken p))
                      None)
            (\<lambda>c. Inr \<lparr>accountName = accountName p, accountKey = accountKey p,
                       sasToken = sasToken p, sharedKeyCredential = None, client = c\<rparr>)
        else Inl (StorageError 401 ''Missing authentication''))"

section \<open>BlobContainer\<close>

definition BlobContainer_createContainer ::
  "('cred, 'client, 'perm) blob_sdk \<Rightarrow> ('cred, 'client) facade \<Rightarrow> string \<Rightarrow> exn + string" where
  "BlobContainer_createContainer sdk this containerName =
     try_catch
       (and_then (ContainerClient_create sdk (client this) containerName)
          (\<lambda>createContainerResponse. Inr (requestId createContainerResponse)))"

text \<open>
  \<^verbatim>\<open>for await (const x of iter) { xs.push(f(x)) }\<close>, with \<open>f\<close> the
  expression pushed; the list grows at its end.
\<close>

fun for_await_push :: "('a \<Rightarrow> 'b) \<Rightarrow> 'a paged \<Rightarrow> 'b list \<Rightarrow> exn + 'b list" where
  "for_await_push f PEnd xs = Inr xs"
| "for_await_push f (PItem x iter) xs = for_await_push f iter (xs @ [f x])"
| "for_await_push f (PFail e) xs = Inl e"

definition BlobContainer_listContainers ::
  "('cred, 'client, 'perm) blob_sdk \<Rightarrow> ('cred, 'client) facade \<Rightarrow> exn + string list" where
  "BlobContainer_listContainers sdk this =
     try_catch
       (and_then (listContainers sdk (client this))
          (\<lambda>iter. for_await_push name iter []))"

definition BlobContainer_createBlob ::
  "('cred, 'client, 'perm) blob_sdk \<Rightarrow> ('cred, 'client) facade \<Rightarrow> string \<Rightarrow> string \<Rightarrow> content
     \<Rightarrow> exn + string" where
  "BlobContainer_createBlob sdk this containerName blobName content =
     try_catch
       (and_then (BlockBlobClient_upload sdk (client this) containerName blobName content
                    (byteLength content))
          (\<lambda>uploadBlobResponse. Inr (requestId uploadBlobResponse)))"

definition BlobContainer_listBlobs ::
  "('cred, 'client, 'perm) blob_sdk \<Rightarrow> ('cred, 'client) facade \<Rightarrow> string
     \<Rightarrow> exn + listed_item list" where
  "BlobContainer_listBlobs sdk this containerName =
     try_catch
       (and_then (listBlobsFlat sdk (client this) containerName)
          (\<lambda>iter. for_await_push (\<lambda>blob. blob) iter []))"

text \<open>
  \<^verbatim>\<open>streamToString\<close> (util.js): the \<^verbatim>\<open>data\<close> listener pushes
  \<^verbatim>\<open>data.toString()\<close>, the \<^verbatim>\<open>end\<close> listener resolves with
  \<^verbatim>\<open>chunks.join('')\<close>, the \<^verbatim>\<open>error\<close> listener rejects.
\<close>

fun streamToString_on :: "(8 word list \<Rightarrow> string) \<Rightarrow> readable \<Rightarrow> string list \<Rightarrow> exn + string" where
  "streamToString_on toString (Data d readableStream) chunks =
     streamToString_on toString readableStream (chunks @ [toString d])"
| "streamToString_on toString End chunks = Inr (concat chunks)"
| "streamToString_on toString (Error e) chunks = Inl e"

definition streamToString :: "(8 word list \<Rightarrow> string) \<Rightarrow> readable \<Rightarrow> exn + string" where
  "streamToString toString readableStream = streamToString_on toString readableStream []"

definition BlobContainer_getBlobContent ::
  "('cred, 'client, 'perm) blob_sdk \<Rightarrow> ('cred, 'client) facade \<Rightarrow> string \<Rightarrow> string
     \<Rightarrow> exn + string" where
  "BlobContainer_getBlobContent sdk this containerName blobName =
     try_catch
       (and_then (BlockBlobClient_download sdk (client this) containerName blobName 0 None)
          (\<lambda>downloadBlockBlobResponse.
             and_then (streamToString (Buffer_toString sdk)
                         (readableStreamBody downloadBlockBlobResponse))
               (\<lambda>content. Inr content)))"

definition BlobContainer_deleteContainer ::
  "('cred, 'client, 'perm) blob_sdk \<Rightarrow> ('cred, 'client) facade \<Rightarrow> string \<Rightarrow> exn + bool" where
  "BlobContainer_deleteContainer sdk this containerName =
     try_catch
       (and_then (ContainerClient_delete sdk (client this) containerName) (\<lambda>r. Inr True))"

definition BlobContainer_deleteBlob ::
  "('cred, 'client, 'perm) blob_sdk \<Rightarrow> ('cred, 'client) facade \<Rightarrow> string \<Rightarrow> string
     \<Rightarrow> exn + bool" where
  "BlobContainer_deleteBlob sdk this containerName blobName =
     try_catch
       (and_then (BlockBlobClient_delete sdk (client this) containerName blobName)
          (\<lambda>r. Inr True))"

section \<open>Dates\<close>

text \<open>
  A \<^verbatim>\<open>Date\<close> holds a time value: milliseconds since the epoch, UTC.
  \<^verbatim>\<open>getMinutes\<close> and \<^verbatim>\<open>setMinutes\<close> work on local time; the
  definitions follow ECMA-262 (Date objects: Day, HourFromTime, MinFromTime,
  SecFromTime, msFromTime, MakeTime, MakeDate, TimeClip, LocalTime, UTC). The local
  zone is the function \<open>LocalTZA\<close> of the standard: \<open>tza t True\<close> is the offset
  in force at the UTC time \<open>t\<close>, \<open>tza t False\<close> the offset by which the local
  time \<open>t\<close> is read. \<open>None\<close> is the invalid date (\<^verbatim>\<open>NaN\<close>).
  Minutes are integers.
\<close>

definition msPerDay :: int where "msPerDay = 86400000"
definition msPerHour :: int where "msPerHour = 3600000"
definition msPerMinute :: int where "msPerMinute = 60000"
definition msPerSecond :: int where "msPerSecond = 1000"

definition Day :: "int \<Rightarrow> int" where "Day t = t div msPerDay"
definition HourFromTime :: "int \<Rightarrow> int" where "HourFromTime t = (t div msPerHour) mod 24"
definition MinFromTime :: "int \<Rightarrow> int" where "MinFromTime t = (t div msPerMinute) mod 60"
definition SecFromTime :: "int \<Rightarrow> int" where "SecFromTime t = (t div msPerSecond) mod 60"
definition msFromTime :: "int \<Rightarrow> int" where "msFromTime t = t mod msPerSecond"

definition MakeTime :: "int \<Rightarrow> int \<Rightarrow> int \<Rightarrow> int \<Rightarrow> int" where
  "MakeTime hour m sec ms = hour * msPerHour + m * msPerMinute + sec * msPerSecond + ms"

definition MakeDate :: "int \<Rightarrow> int \<Rightarrow> int" where
  "MakeDate day time = day * msPerDay + time"

definition TimeClip :: "int \<Rightarrow> int option" where
  "TimeClip time = (if \<bar>time\<bar> > 8640000000000000 then None else Some time)"

definition LocalTime :: "(int \<Rightarrow> bool \<Rightarrow> int) \<Rightarrow> int \<Rightarrow> int" where
  "LocalTime tza t = t + tza t True"

definition UTC :: "(int \<Rightarrow> bool \<Rightarrow> int) \<Rightarrow> int \<Rightarrow> int" where
  "UTC tza t = t - tza t False"

definition getMinutes :: "(int \<Rightarrow> bool \<Rightarrow> int) \<Rightarrow> int \<Rightarrow> int" where
  "getMinutes tza tv = MinFromTime (LocalTime tza tv)"

definition setMinutes :: "(int \<Rightarrow> bool \<Rightarrow> int) \<Rightarrow> int \<Rightarrow> int \<Rightarrow> int option" where
  "setMinutes tza tv m =
     (let t = LocalTime tza tv;
          date = MakeDate (Day t) (MakeTime (HourFromTime t) m (SecFromTime t) (msFromTime t))
      in TimeClip (UTC tza date))"

section \<open>SAS tokens\<close>

text \<open>
  \<^verbatim>\<open>generateSasToken\<close> is synchronous and has no \<^verbatim>\<open>try\<close> block. Its
  parameters \<^verbatim>\<open>expireTime\<close> and \<^verbatim>\<open>clockSkewMarginMinutes\<close> default to 60
  and 5 when they are left out (\<open>None\<close>); \<^verbatim>\<open>new Date()\<close> is the argument
  \<open>now\<close>, the zone of the process the argument \<open>tza\<close>.
\<close>

definition default_to :: "int option \<Rightarrow> int \<Rightarrow> int" where
  "default_to v d = (case v of None \<Rightarrow> d | Some n \<Rightarrow> n)"

definition BlobContainer_generateSasToken ::
  "('cred, 'client, 'perm) blob_sdk \<Rightarrow> (int \<Rightarrow> bool \<Rightarrow> int) \<Rightarrow> int \<Rightarrow> ('cred, 'client) facade
     \<Rightarrow> string \<Rightarrow> string option \<Rightarrow> string option \<Rightarrow> int option \<Rightarrow> int option \<Rightarrow> exn + string" where
  "BlobContainer_generateSasToken sdk tza now this containerName blobName permissions expireTime
       clockSkewMarginMinutes =
     (let startDate = setMinutes tza now (getMinutes tza now - default_to clockSkewMarginMinutes 5);
          expiryDate = setMinutes tza now (getMinutes tza now + default_to expireTime 60);
          permissions' = (if truthy permissions then str permissions else ''r'')
      in if truthy blobName then
           and_then (BlobSASPermissions_parse sdk permissions')
             (\<lambda>parsed.
                generateBlobSASQueryParameters sdk
                  [''containerName'' \<mapsto> FString containerName,
                   ''blobName'' \<mapsto> FString (str blobName),
                   ''permissions'' \<mapsto> FPermissions parsed,
                   ''startsOn'' \<mapsto> FDate startDate,
                   ''expiresOn'' \<mapsto> FDate expiryDate]
                  (sharedKeyCredential this))
         else
           and_then (ContainerSASPermissions_parse sdk permissions')
             (\<lambda>parsed.
                generateBlobSASQueryParameters sdk
                  [''containerName'' \<mapsto> FString containerName,
                   ''permissions'' \<mapsto> FPermissions parsed,
                   ''startsOn'' \<mapsto> FDate startDate,
                   ''expiresOn'' \<mapsto> FDate expiryDate]
                  (sharedKeyCredential this)))"

section \<open>StorageQueue\<close>

text \<open>
  The source holds two definitions of the class. The first has no
  \<^verbatim>\<open>generateSasToken\<close>, lists without a prefix and sends without options; its
  operations carry the suffix 1. The constructors agree word for word.
\<close>

definition StorageQueue1_new ::
  "('cred, 'client, 'perm, 'peek) queue_sdk \<Rightarrow> params \<Rightarrow> exn + ('cred, 'client) facade" where
  "StorageQueue1_new sdk p =
     try_catch
       (if truthy (accountName p) \<and> truthy (accountKey p) then
          and_then (queue_StorageSharedKeyCredential sdk (str (accountName p)) (str (accountKey p)))
            (\<lambda>cred.
               and_then (QueueServiceClient sdk
                           (''https://'' @ str (accountName p) @ ''.queue.core.windows.net'')
                           (Some cred))
                 (\<lambda>c. Inr \<lparr>accountName = accountName p, accountKey = accountKey p,
                            sasToken = sasToken p, sharedKeyCredential = Some cred,
                            client = c\<rparr>))
        else if truthy (accountName p) \<and> truthy (sasToken p) then
          and_then (QueueServiceClient sdk
                      (''https://'' @ str (accountName p) @ ''.queue.core.windows.net?''
                         @ str (sasToken p))
                      None)
            (\<lambda>c. Inr \<lparr>accountName = accountName p, accountKey = accountKey p,
                       sasToken = sasToken p, sharedKeyCredential = None, client = c\<rparr>)
        else Inl (StorageError 401 ''Missing authentication''))"

definition StorageQueue1_create ::
  "('cred, 'client, 'perm, 'peek) queue_sdk \<Rightarrow> ('cred, 'client) facade \<Rightarrow> string \<Rightarrow> exn + string" where
  "StorageQueue1_create sdk this queueName =
     try_catch
       (and_then (QueueClient_create sdk (client this) queueName)
          (\<lambda>response. Inr (requestId response)))"

definition StorageQueue1_list ::
  "('cred, 'client, 'perm, 'peek) queue_sdk \<Rightarrow> ('cred, 'client) facade \<Rightarrow> exn + string list" where
  "StorageQueue1_list sdk this =
     try_catch
       (and_then (listQueues sdk (client this) None)
          (\<lambda>iter. for_await_push name iter []))"

definition StorageQueue1_delete ::
  "('cred, 'client, 'perm, 'peek) queue_sdk \<Rightarrow> ('cred, 'client) facade \<Rightarrow> string \<Rightarrow> exn + string" where
  "StorageQueue1_delete sdk this queueName =
     try_catch
       (and_then (QueueClient_delete sdk (client this) queueName)
          (\<lambda>response. Inr (requestId response)))"

definition StorageQueue1_sendMessage ::
  "('cred, 'client, 'perm, 'peek) queue_sdk \<Rightarrow> ('cred, 'client) facade \<Rightarrow> string \<Rightarrow> string
     \<Rightarrow> exn + send_response" where
  "StorageQueue1_sendMessage sdk this queueName msg =
     try_catch
       (and_then (QueueClient_sendMessage sdk (client this) queueName msg None)
          (\<lambda>response. Inr \<lparr>send_messageId = send_messageId response,
                             send_requestId = send_requestId response\<rparr>))"

definition StorageQueue1_peekMessages ::
  "('cred, 'client, 'perm, 'peek) queue_sdk \<Rightarrow> ('cred, 'client) facade \<Rightarrow> string \<Rightarrow> exn + 'peek" where
  "StorageQueue1_peekMessages sdk this queueName =
     try_catch
       (and_then (QueueClient_peekMessages sdk (client this) queueName)
          (\<lambda>response. Inr response))"

text \<open>
  The second definition. As in BlobContainer, every method destructures a parameter
  object; the definitions take the object's fields as arguments, so they describe
  calls that pass the object (a call with no argument at all throws a
  \<^verbatim>\<open>TypeError\<close> while destructuring, before the \<^verbatim>\<open>try\<close> block;
  for \<^verbatim>\<open>list\<close>, which the first definition calls without an argument, that
  call is \<open>StorageQueue_list_call\<close> below).
\<close>

definition StorageQueue_create ::
  "('cred, 'client, 'perm, 'peek) queue_sdk \<Rightarrow> ('cred, 'client) facade \<Rightarrow> string \<Rightarrow> exn + string" where
  "StorageQueue_create sdk this queueName =
     try_catch
       (and_then (QueueClient_create sdk (client this) queueName)
          (\<lambda>response. Inr (requestId response)))"

text \<open>
  \<^verbatim>\<open>const options = {}; if (prefix) { options.prefix = prefix }\<close>
\<close>

definition StorageQueue_list ::
  "('cred, 'client, 'perm, 'peek) queue_sdk \<Rightarrow> ('cred, 'client) facade \<Rightarrow> string option
     \<Rightarrow> exn + string list" where
  "StorageQueue_list sdk this prefix' =
     try_catch
       (let options = \<lparr>prefix = None\<rparr>;
            options = (if truthy prefix' then options\<lparr>prefix := prefix'\<rparr> else options)
        in and_then (listQueues sdk (client this) (Some options))
             (\<lambda>iter. for_await_push name iter []))"

text \<open>
  A call of the second definition's \<^verbatim>\<open>list\<close> as the caller writes it. The
  parameter \<^verbatim>\<open>{ prefix = null }\<close> has no default of its own, so
  \<^verbatim>\<open>list()\<close>, with no argument (\<open>None\<close>), throws a \<^verbatim>\<open>TypeError\<close>
  while destructuring \<^verbatim>\<open>undefined\<close>: before the \<^verbatim>\<open>try\<close> block, so the
  promise rejects with that error as it is. \<open>Some p\<close> is the call that passes an
  object whose \<^verbatim>\<open>prefix\<close> is \<open>p\<close>. The wording of the message is the
  engine's; the error has no status code.
\<close>

definition destructure_TypeError :: exn where
  "destructure_TypeError = SdkError None ''Cannot destructure property prefix of undefined''"

definition StorageQueue_list_call ::
  "('cred, 'client, 'perm, 'peek) queue_sdk \<Rightarrow> ('cred, 'client) facade
     \<Rightarrow> string option option \<Rightarrow> exn + string list" where
  "StorageQueue_list_call sdk this args =
     (case args of
        None \<Rightarrow> Inl destructure_TypeError
      | Some prefix' \<Rightarrow> StorageQueue_list sdk this prefix')"

definition StorageQueue_delete ::
  "('cred, 'client, 'perm, 'peek) queue_sdk \<Rightarrow> ('cred, 'client) facade \<Rightarrow> string \<Rightarrow> exn + string" where
  "StorageQueue_delete sdk this queueName =
     try_catch
       (and_then (QueueClient_delete sdk (client this) queueName)
          (\<lambda>response. Inr (requestId response)))"

definition StorageQueue_sendMessage ::
  "('cred, 'client, 'perm, 'peek) queue_sdk \<Rightarrow> ('cred, 'client) facade \<Rightarrow> string \<Rightarrow> string
     \<Rightarrow> int option \<Rightarrow> int option \<Rightarrow> exn + send_response" where
  "StorageQueue_sendMessage sdk this queueName msg timeToLive visibilityTimeout' =
     try_catch
       (let options = \<lparr>messageTimeToLive = None, visibilityTimeout = None\<rparr>;
            options = (if truthy_num timeToLive then options\<lparr>messageTimeToLive := timeToLive\<rparr>
                       else options);
            options = (if truthy_num visibilityTimeout'
                       then options\<lparr>visibilityTimeout := visibilityTimeout'\<rparr> else options)
        in and_then (QueueClient_sendMessage sdk (client this) queueName msg (Some options))
             (\<lambda>response. Inr \<lparr>send_messageId = send_messageId response,
                                send_requestId = send_requestId response\<rparr>))"

definition StorageQueue_peekMessages ::
  "('cred, 'client, 'perm, 'peek) queue_sdk \<Rightarrow> ('cred, 'client) facade \<Rightarrow> string \<Rightarrow> exn + 'peek" where
  "StorageQueue_peekMessages sdk this queueName =
     try_catch
       (and_then (QueueClient_peekMessages sdk (client this) queueName)
          (\<lambda>response. Inr response))"

text \<open>
  The object literal of the queue's \<^verbatim>\<open>generateSasToken\<close> has the key
  \<^verbatim>\<open>containerName\<close>, holding the queue's name.
\<close>

definition StorageQueue_generateSasToken ::
  "('cred, 'client, 'perm, 'peek) queue_sdk \<Rightarrow> (int \<Rightarrow> bool \<Rightarrow> int) \<Rightarrow> int
     \<Rightarrow> ('cred, 'client) facade \<Rightarrow> string \<Rightarrow> string option \<Rightarrow> int option \<Rightarrow> int option
     \<Rightarrow> exn + string" where
  "StorageQueue_generateSasToken sdk tza now this queueName permissions expireTime
       clockSkewMarginMinutes =
     (let startDate = setMinutes tza now (getMinutes tza now - default_to clockSkewMarginMinutes 5);
          expiryDate = setMinutes tza now (getMinutes tza now + default_to expireTime 60);
          permissions' = (if truthy permissions then str permissions else ''r'')
      in and_then (QueueSASPermissions_parse sdk permissions')
           (\<lambda>parsed.
              generateQueueSASQueryParameters sdk
                [''containerName'' \<mapsto> FString queueName,
                 ''permissions'' \<mapsto> FPermissions parsed,
                 ''startsOn'' \<mapsto> FDate startDate,
                 ''expiresOn'' \<mapsto> FDate expiryDate]
                (sharedKeyCredential this)))"

section \<open>Outcomes of iterators and streams\<close>

text \<open>
  What an iterator or a stream delivers, read off its events: the items it yields and
  the error that ends it, if one does. These describe the SDK's side; the library's
  loops are \<open>for_await_push\<close> and \<open>streamToString_on\<close> above.
\<close>

fun paged_items :: "'a paged \<Rightarrow> 'a list" where
  "paged_items PEnd = []"
| "paged_items (PItem x iter) = x # paged_items iter"
| "paged_items (PFail e) = []"

fun paged_failure :: "'a paged \<Rightarrow> exn option" where
  "paged_failure PEnd = None"
| "paged_failure (PItem x iter) = paged_failure iter"
| "paged_failure (PFail e) = Some e"

definition paged_outcome :: "'a paged \<Rightarrow> exn + 'a list" where
  "paged_outcome iter =
     (case paged_failure iter of None \<Rightarrow> Inr (paged_items iter) | Some e \<Rightarrow> Inl e)"

text \<open>The iterator that yields the elements of a list and ends.\<close>

fun paged_of :: "'a list \<Rightarrow> 'a paged" where
  "paged_of [] = PEnd"
| "paged_of (x # xs) = PItem x (paged_of xs)"

fun stream_chunks :: "readable \<Rightarrow> 8 word list list" where
  "stream_chunks (Data d rs) = d # stream_chunks rs"
| "stream_chunks End = []"
| "stream_chunks (Error e) = []"

fun stream_failure :: "readable \<Rightarrow> exn option" where
  "stream_failure (Data d rs) = stream_failure rs"
| "stream_failure End = None"
| "stream_failure (Error e) = Some e"

definition stream_outcome :: "readable \<Rightarrow> exn + 8 word list list" where
  "stream_outcome rs =
     (case stream_failure rs of None \<Rightarrow> Inr (stream_chunks rs) | Some e \<Rightarrow> Inl e)"

text \<open>
  The error shape of the specification: the failure's status code when it has one
  (present and not zero), 500 otherwise, and the failure's message.
\<close>

definition uniform_error :: "exn \<Rightarrow> exn" where
  "uniform_error e =
     StorageError (case statusCode e of None \<Rightarrow> 500 | Some n \<Rightarrow> if n = 0 then 500 else n)
       (message e)"

section \<open>Concrete zones, SDKs and instances\<close>

text \<open>
  Two zones. \<open>utc\<close> has offset zero. \<open>amsterdam_autumn_2020\<close> is
  Europe/Amsterdam around the end of daylight saving time on 2020-10-25 at 01:00:00 UTC
  (time value 1603587600000): the offset is two hours before and one hour after. Local
  times of the repeated hour are read with the offset before the transition, as
  ECMA-262 prescribes for \<open>LocalTZA(t, false)\<close>.
\<close>

definition utc :: "int \<Rightarrow> bool \<Rightarrow> int" where
  "utc t isUTC = 0"

definition amsterdam_autumn_2020 :: "int \<Rightarrow> bool \<Rightarrow> int" where
  "amsterdam_autumn_2020 t isUTC =
     (if isUTC then (if t < 1603587600000 then 7200000 else 3600000)
      else (if t < 1603587600000 + 7200000 then 7200000 else 3600000))"

text \<open>
  A small SDK for evaluating the library on concrete inputs. A credential is the pair
  of name and key, a client its URL. The upload refuses a length that is not the
  number of the content's bytes; the download serves two chunks from offset 0; the signing
  function throws a \<^verbatim>\<open>TypeError\<close> when it is handed no credential.
\<close>

definition ascii :: "8 word list \<Rightarrow> string" where
  "ascii bs = map (\<lambda>b. char_of (unat b)) bs"

definition demo_blob_sdk :: "(string \<times> string, string, string) blob_sdk" where
  "demo_blob_sdk =
     \<lparr>blob_StorageSharedKeyCredential = (\<lambda>n k. Inr (n, k)),
      BlobServiceClient = (\<lambda>url cred. Inr url),
      ContainerClient_create = (\<lambda>c n. Inr \<lparr>requestId = ''req-create''\<rparr>),
      listContainers = (\<lambda>c. Inr (PItem \<lparr>name = ''c1''\<rparr> PEnd)),
      BlockBlobClient_upload =
        (\<lambda>c n b body len.
           if len = length (content_bytes body) then Inr \<lparr>requestId = ''req-upload''\<rparr>
           else Inl (SdkError (Some 400) ''length mismatch'')),
      listBlobsFlat = (\<lambda>c n. Inr (PItem \<lparr>name = ''a.csv''\<rparr> PEnd)),
      BlockBlobClient_download =
        (\<lambda>c n b offset count.
           if offset = 0 \<and> count = None
           then Inr \<lparr>readableStreamBody = Data [0x78, 0x2C] (Data [0x79] End)\<rparr>
           else Inl (SdkError (Some 416) ''range'')),
      Buffer_toString = ascii,
      ContainerClient_delete = (\<lambda>c n. Inr \<lparr>requestId = ''req-delete''\<rparr>),
      BlockBlobClient_delete = (\<lambda>c n b. Inl (SdkError (Some 404) ''BlobNotFound'')),
      BlobSASPermissions_parse = (\<lambda>s. Inr s),
      ContainerSASPermissions_parse = (\<lambda>s. Inr s),
      generateBlobSASQueryParameters =
        (\<lambda>values cred.
           case cred of
             None \<Rightarrow> Inl (SdkError None ''Cannot read property accountName of undefined'')
           | Some k \<Rightarrow> Inr ''sv=2019-02-02&sig=s'')\<rparr>"

definition demo_queues :: "listed_item list" where
  "demo_queues = [\<lparr>name = ''orders''\<rparr>, \<lparr>name = ''test1''\<rparr>]"

definition starts_with :: "string option \<Rightarrow> string \<Rightarrow> bool" where
  "starts_with p s = (case p of None \<Rightarrow> True | Some q \<Rightarrow> take (length q) s = q)"

definition demo_queue_sdk :: "(string \<times> string, string, string, string list) queue_sdk" where
  "demo_queue_sdk =
     \<lparr>queue_StorageSharedKeyCredential = (\<lambda>n k. Inr (n, k)),
      QueueServiceClient = (\<lambda>url cred. Inr url),
      QueueClient_create = (\<lambda>c n. Inr \<lparr>requestId = ''req-create''\<rparr>),
      listQueues =
        (\<lambda>c options.
           Inr (paged_of
                  (filter (\<lambda>q. starts_with
                                 (case options of None \<Rightarrow> None | Some opts \<Rightarrow> prefix opts)
                                 (name q))
                     demo_queues))),
      QueueClient_delete = (\<lambda>c n. Inr \<lparr>requestId = ''req-delete''\<rparr>),
      QueueClient_sendMessage =
        (\<lambda>c n m options. Inr \<lparr>send_messageId = ''msg-1'', send_requestId = ''req-send''\<rparr>),
      QueueClient_peekMessages = (\<lambda>c n. Inr [''hello'']),
      QueueSASPermissions_parse = (\<lambda>s. Inr s),
      generateQueueSASQueryParameters =
        (\<lambda>values cred.
           case cred of
             None \<Rightarrow> Inl (SdkError None ''Cannot read property accountName of undefined'')
           | Some k \<Rightarrow> Inr ''sv=2019-02-02&sig=s'')\<rparr>"

definition demo_instance :: "(string \<times> string, string) facade" where
  "demo_instance =
     \<lparr>accountName = Some ''acct'', accountKey = Some ''key'', sasToken = None,
      sharedKeyCredential = Some (''acct'', ''key''),
      client = ''https://acct.blob.core.windows.net''\<rparr>"

definition demo_token_instance :: "(string \<times> string, string) facade" where
  "demo_token_instance =
     \<lparr>accountName = Some ''acct'', accountKey = None, sasToken = Some ''sv=1'',
      sharedKeyCredential = None,
      client = ''https://acct.blob.core.windows.net?sv=1''\<rparr>"

definition demo_queue_instance :: "(string \<times> string, string) facade" where
  "demo_queue_instance =
     \<lparr>accountName = Some ''acct'', accountKey = Some ''key'', sasToken = None,
      sharedKeyCredential = Some (''acct'', ''key''),
      client = ''https://acct.queue.core.windows.net''\<rparr>"

definition demo_queue_token_instance :: "(string \<times> string, string) facade" where
  "demo_queue_token_instance =
     \<lparr>accountName = Some ''acct'', accountKey = None, sasToken = Some ''sv=1'',
      sharedKeyCredential = None,
      client = ''https://acct.queue.core.windows.net?sv=1''\<rparr>"


section \<open>The handler and the loops\<close>

lemma try_catch_uniform:
  "try_catch body = (case body of Inl e \<Rightarrow> Inl (uniform_error e) | Inr v \<Rightarrow> Inr v)"
  by (simp add: try_catch_def uniform_error_def js_or_def split: sum.splits option.splits)

lemma for_await_push_outcome:
  "for_await_push f iter xs =
     (case paged_failure iter of
        None \<Rightarrow> Inr (xs @ map f (paged_items iter))
      | Some e \<Rightarrow> Inl e)"
  by (induction iter arbitrary: xs) (simp_all split: option.splits)

lemma for_await_push_paged_outcome:
  "for_await_push f iter [] =
     (case paged_outcome iter of Inl e \<Rightarrow> Inl e | Inr ys \<Rightarrow> Inr (map f ys))"
  by (simp add: for_await_push_outcome paged_outcome_def split: option.splits)

lemma paged_of_outcome: "paged_outcome (paged_of xs) = Inr xs"
  by (induction xs) (simp_all add: paged_outcome_def split: option.splits)

lemma streamToString_on_outcome:
  "streamToString_on ts rs chunks =
     (case stream_failure rs of
        None \<Rightarrow> Inr (concat (chunks @ map ts (stream_chunks rs)))
      | Some e \<Rightarrow> Inl e)"
  by (induction rs arbitrary: chunks) (simp_all split: option.splits)

lemma streamToString_outcome:
  "streamToString ts rs =
     (case stream_outcome rs of Inl e \<Rightarrow> Inl e | Inr ds \<Rightarrow> Inr (concat (map ts ds)))"
  by (simp add: streamToString_def streamToString_on_outcome stream_outcome_def
      split: option.splits)

section \<open>Construction without credentials\<close>

text \<open>
  C1. Constructing a BlobContainer or a StorageQueue with neither an account key nor a
  token throws a \<^verbatim>\<open>StorageError\<close> with the message "Missing authentication".
  The \<^verbatim>\<open>throw new StorageError(401, ...)\<close> stands inside the constructor's own
  \<^verbatim>\<open>try\<close> block, so the handler catches it and throws a new error whose code is
  \<^verbatim>\<open>error.statusCode || 500\<close>. The caught error has \<^verbatim>\<open>code\<close> 401 and no
  \<^verbatim>\<open>statusCode\<close>: the error that reaches the caller has code 500, not 401.
\<close>

theorem missing_authentication_code_500:
  "BlobContainer_new bsdk \<lparr>accountName = n, accountKey = None, sasToken = None\<rparr>
     = Inl (StorageError 500 ''Missing authentication'')
   \<and> StorageQueue_new qsdk \<lparr>accountName = n, accountKey = None, sasToken = None\<rparr>
     = Inl (StorageError 500 ''Missing authentication'')"
  by (simp add: BlobContainer_new_def StorageQueue_new_def try_catch_def truthy_def js_or_def)

section \<open>The uniform error of the asynchronous operations\<close>

lemma createContainer_outcome:
  "BlobContainer_createContainer sdk this containerName =
     (case ContainerClient_create sdk (client this) containerName of
        Inr r \<Rightarrow> Inr (requestId r) | Inl e \<Rightarrow> Inl (uniform_error e))"
  by (simp add: BlobContainer_createContainer_def try_catch_uniform and_then_def split: sum.splits)

lemma listContainers_outcome:
  "BlobContainer_listContainers sdk this =
     (case and_then (listContainers sdk (client this)) paged_outcome of
        Inr xs \<Rightarrow> Inr (map name xs) | Inl e \<Rightarrow> Inl (uniform_error e))"
  by (simp add: BlobContainer_listContainers_def try_catch_uniform and_then_def
      for_await_push_paged_outcome split: sum.splits)

lemma createBlob_outcome:
  "BlobContainer_createBlob sdk this containerName blobName body =
     (case BlockBlobClient_upload sdk (client this) containerName blobName body (byteLength body) of
        Inr r \<Rightarrow> Inr (requestId r) | Inl e \<Rightarrow> Inl (uniform_error e))"
  by (simp add: BlobContainer_createBlob_def try_catch_uniform and_then_def split: sum.splits)

lemma listBlobs_outcome:
  "BlobContainer_listBlobs sdk this containerName =
     (case and_then (listBlobsFlat sdk (client this) containerName) paged_outcome of
        Inr xs \<Rightarrow> Inr xs | Inl e \<Rightarrow> Inl (uniform_error e))"
  by (simp add: BlobContainer_listBlobs_def try_catch_uniform and_then_def
      for_await_push_paged_outcome split: sum.splits)

lemma getBlobContent_outcome:
  "BlobContainer_getBlobContent sdk this containerName blobName =
     (case and_then (BlockBlobClient_download sdk (client this) containerName blobName 0 None)
             (\<lambda>r. stream_outcome (readableStreamBody r)) of
        Inr ds \<Rightarrow> Inr (concat (map (Buffer_toString sdk) ds))
      | Inl e \<Rightarrow> Inl (uniform_error e))"
  by (simp add: BlobContainer_getBlobContent_def try_catch_uniform and_then_def
      streamToString_outcome split: sum.splits)

lemma deleteContainer_outcome:
  "BlobContainer_deleteContainer sdk this containerName =
     (case ContainerClient_delete sdk (client this) containerName of
        Inr r \<Rightarrow> Inr True | Inl e \<Rightarrow> Inl (uniform_error e))"
  by (simp add: BlobContainer_deleteContainer_def try_catch_uniform and_then_def split: sum.splits)

lemma deleteBlob_outcome:
  "BlobContainer_deleteBlob sdk this containerName blobName =
     (case BlockBlobClient_delete sdk (client this) containerName blobName of
        Inr r \<Rightarrow> Inr True | Inl e \<Rightarrow> Inl (uniform_error e))"
  by (simp add: BlobContainer_deleteBlob_def try_catch_uniform and_then_def split: sum.splits)

lemma queue_create_outcome:
  "StorageQueue_create qsdk qthis queueName =
     (case QueueClient_create qsdk (client qthis) queueName of
        Inr r \<Rightarrow> Inr (requestId r) | Inl e \<Rightarrow> Inl (uniform_error e))"
  by (simp add: StorageQueue_create_def try_catch_uniform and_then_def split: sum.splits)

lemma queue_list_outcome:
  "StorageQueue_list qsdk qthis p =
     (case and_then (listQueues qsdk (client qthis)
                       (Some \<lparr>prefix = (if truthy p then p else None)\<rparr>)) paged_outcome of
        Inr xs \<Rightarrow> Inr (map name xs) | Inl e \<Rightarrow> Inl (uniform_error e))"
  by (simp add: StorageQueue_list_def try_catch_uniform and_then_def
      for_await_push_paged_outcome split: sum.splits)

lemma queue_delete_outcome:
  "StorageQueue_delete qsdk qthis queueName =
     (case QueueClient_delete qsdk (client qthis) queueName of
        Inr r \<Rightarrow> Inr (requestId r) | Inl e \<Rightarrow> Inl (uniform_error e))"
  by (simp add: StorageQueue_delete_def try_catch_uniform and_then_def split: sum.splits)

lemma queue_sendMessage_outcome:
  "StorageQueue_sendMessage qsdk qthis queueName msg ttl vt =
     (case QueueClient_sendMessage qsdk (client qthis) queueName msg
             (Some \<lparr>messageTimeToLive = (if truthy_num ttl then ttl else None),
                    visibilityTimeout = (if truthy_num vt then vt else None)\<rparr>) of
        Inr r \<Rightarrow> Inr \<lparr>send_messageId = send_messageId r, send_requestId = send_requestId r\<rparr>
      | Inl e \<Rightarrow> Inl (uniform_error e))"
  by (simp add: StorageQueue_sendMessage_def try_catch_uniform and_then_def split: sum.splits)

lemma queue_peekMessages_outcome:
  "StorageQueue_peekMessages qsdk qthis queueName =
     (case QueueClient_peekMessages qsdk (client qthis) queueName of
        Inr r \<Rightarrow> Inr r | Inl e \<Rightarrow> Inl (uniform_error e))"
  by (simp add: StorageQueue_peekMessages_def try_catch_uniform and_then_def split: sum.splits)

text \<open>
  C2, as amended. Every operation of BlobContainer and StorageQueue other than
  \<^verbatim>\<open>generateSasToken\<close> returns its declared result when the SDK call under
  it succeeds, and otherwise fails with the \<^verbatim>\<open>StorageError\<close> whose code is
  the failure's status code when it has one (present and not zero) and 500 otherwise,
  and whose message is the failure's message. For a listing the SDK call is the call
  that returns the iterator followed by the enumeration; for
  \<^verbatim>\<open>getBlobContent\<close> it is the download followed by the stream.
\<close>

theorem wrapped_operations_fail_with_StorageError:
  "BlobContainer_createContainer sdk this containerName =
     (case ContainerClient_create sdk (client this) containerName of
        Inr r \<Rightarrow> Inr (requestId r) | Inl e \<Rightarrow> Inl (uniform_error e))
   \<and> BlobContainer_listContainers sdk this =
     (case and_then (listContainers sdk (client this)) paged_outcome of
        Inr xs \<Rightarrow> Inr (map name xs) | Inl e \<Rightarrow> Inl (uniform_error e))
   \<and> BlobContainer_createBlob sdk this containerName blobName body =
     (case BlockBlobClient_upload sdk (client this) containerName blobName body (byteLength body) of
        Inr r \<Rightarrow> Inr (requestId r) | Inl e \<Rightarrow> Inl (uniform_error e))
   \<and> BlobContainer_listBlobs sdk this containerName =
     (case and_then (listBlobsFlat sdk (client this) containerName) paged_outcome of
        Inr xs \<Rightarrow> Inr xs | Inl e \<Rightarrow> Inl (uniform_error e))
   \<and> BlobContainer_getBlobContent sdk this containerName blobName =
     (case and_then (BlockBlobClient_download sdk (client this) containerName blobName 0 None)
             (\<lambda>r. stream_outcome (readableStreamBody r)) of
        Inr ds \<Rightarrow> Inr (concat (map (Buffer_toString sdk) ds))
      | Inl e \<Rightarrow> Inl (uniform_error e))
   \<and> BlobContainer_deleteContainer sdk this containerName =
     (case ContainerClient_delete sdk (client this) containerName of
        Inr r \<Rightarrow> Inr True | Inl e \<Rightarrow> Inl (uniform_error e))
   \<and> BlobContainer_deleteBlob sdk this containerName blobName =
     (case BlockBlobClient_delete sdk (client this) containerName blobName of
        Inr r \<Rightarrow> Inr True | Inl e \<Rightarrow> Inl (uniform_error e))
   \<and> StorageQueue_create qsdk qthis queueName =
     (case QueueClient_create qsdk (client qthis) queueName of
        Inr r \<Rightarrow> Inr (requestId r) | Inl e \<Rightarrow> Inl (uniform_error e))
   \<and> StorageQueue_list qsdk qthis p =
     (case and_then (listQueues qsdk (client qthis)
                       (Some \<lparr>prefix = (if truthy p then p else None)\<rparr>)) paged_outcome of
        Inr xs \<Rightarrow> Inr (map name xs) | Inl e \<Rightarrow> Inl (uniform_error e))
   \<and> StorageQueue_delete qsdk qthis queueName =
     (case QueueClient_delete qsdk (client qthis) queueName of
        Inr r \<Rightarrow> Inr (requestId r) | Inl e \<Rightarrow> Inl (uniform_error e))
   \<and> StorageQueue_sendMessage qsdk qthis queueName msg ttl vt =
     (case QueueClient_sendMessage qsdk (client qthis) queueName msg
             (Some \<lparr>messageTimeToLive = (if truthy_num ttl then ttl else None),
                    visibilityTimeout = (if truthy_num vt then vt else None)\<rparr>) of
        Inr r \<Rightarrow> Inr \<lparr>send_messageId = send_messageId r, send_requestId = send_requestId r\<rparr>
      | Inl e \<Rightarrow> Inl (uniform_error e))
   \<and> StorageQueue_peekMessages qsdk qthis queueName =
     (case QueueClient_peekMessages qsdk (client qthis) queueName of
        Inr r \<Rightarrow> Inr r | Inl e \<Rightarrow> Inl (uniform_error e))"
  by (intro conjI)
    (rule createContainer_outcome listContainers_outcome createBlob_outcome listBlobs_outcome
       getBlobContent_outcome deleteContainer_outcome deleteBlob_outcome queue_create_outcome
       queue_list_outcome queue_delete_outcome queue_sendMessage_outcome
       queue_peekMessages_outcome)+

text \<open>
  The claim as stated fails for \<^verbatim>\<open>generateSasToken\<close>, which has no handler. On
  an instance built from a token the signing function is handed
  \<^verbatim>\<open>undefined\<close> for the credential; its \<^verbatim>\<open>TypeError\<close> reaches the caller
  as it is, not as a \<^verbatim>\<open>StorageError\<close>.
\<close>

theorem generateSasToken_failure_is_not_wrapped:
  "BlobContainer_new demo_blob_sdk
       \<lparr>accountName = Some ''acct'', accountKey = None, sasToken = Some ''sv=1''\<rparr>
     = Inr demo_token_instance
   \<and> BlobContainer_generateSasToken demo_blob_sdk utc 1590000000000 demo_token_instance
       ''c1'' None None None None
     = Inl (SdkError None ''Cannot read property accountName of undefined'')"
  by (simp add: BlobContainer_new_def BlobContainer_generateSasToken_def demo_blob_sdk_def
      demo_token_instance_def try_catch_def and_then_def truthy_def str_def)

section \<open>The validity window\<close>

text \<open>
  The pieces \<open>setMinutes\<close> puts together add up to the local time they were
  taken from.
\<close>

lemma time_decomposition:
  "MakeDate (Day t) (MakeTime (HourFromTime t) (MinFromTime t) (SecFromTime t) (msFromTime t)) = t"
proof -
  define s where "s = t div 1000"
  define m where "m = s div 60"
  define h where "h = m div 60"
  define D where "D = h div 24"
  have m_eq: "t div 60000 = m"
    using zdiv_zmult2_eq [of 60 t 1000] by (simp add: m_def s_def)
  have h_eq: "t div 3600000 = h"
    using zdiv_zmult2_eq [of 60 t 60000] by (simp add: h_def m_eq)
  have D_eq: "t div 86400000 = D"
    using zdiv_zmult2_eq [of 24 t 3600000] by (simp add: D_def h_eq)
  have t1: "t = s * 1000 + t mod 1000" by (simp add: s_def)
  have t2: "s = m * 60 + s mod 60" by (simp add: m_def)
  have t3: "m = h * 60 + m mod 60" by (simp add: h_def)
  have t4: "h = D * 24 + h mod 24" by (simp add: D_def)
  have "D * 86400000 + (h mod 24 * 3600000 + m mod 60 * 60000 + s mod 60 * 1000 + t mod 1000) = t"
    using t1 t2 t3 t4 by linarith
  then show ?thesis
    by (simp add: MakeDate_def MakeTime_def Day_def HourFromTime_def MinFromTime_def
        SecFromTime_def msFromTime_def msPerDay_def msPerHour_def msPerMinute_def
        msPerSecond_def m_eq h_eq D_eq s_def [symmetric])
qed

text \<open>
  In a zone whose offset never changes, moving the minutes by \<open>d\<close> moves the time
  value by \<open>d\<close> minutes: there the window is the one the documentation describes,
  and for positive margins it starts before and ends after the current time.
\<close>

lemma setMinutes_fixed_offset:
  "setMinutes (\<lambda>t isUTC. off) now (getMinutes (\<lambda>t isUTC. off) now + d)
     = TimeClip (now + d * 60000)"
proof -
  let ?t = "now + off"
  have "MakeDate (Day ?t)
          (MakeTime (HourFromTime ?t) (MinFromTime ?t + d) (SecFromTime ?t) (msFromTime ?t))
        = MakeDate (Day ?t)
            (MakeTime (HourFromTime ?t) (MinFromTime ?t) (SecFromTime ?t) (msFromTime ?t))
          + d * 60000"
    by (simp add: MakeDate_def MakeTime_def msPerMinute_def algebra_simps)
  then show ?thesis
    by (simp add: setMinutes_def getMinutes_def LocalTime_def UTC_def time_decomposition Let_def)
qed

lemma sas_window_fixed_offset:
  "setMinutes (\<lambda>t isUTC. off) now
       (getMinutes (\<lambda>t isUTC. off) now - default_to clockSkewMarginMinutes 5)
     = TimeClip (now - default_to clockSkewMarginMinutes 5 * 60000)
   \<and> setMinutes (\<lambda>t isUTC. off) now
       (getMinutes (\<lambda>t isUTC. off) now + default_to expireTime 60)
     = TimeClip (now + default_to expireTime 60 * 60000)"
  using setMinutes_fixed_offset [of off now "- default_to clockSkewMarginMinutes 5"]
    setMinutes_fixed_offset [of off now "default_to expireTime 60"]
  by simp

lemma sas_window_fixed_offset_strict:
  assumes "setMinutes (\<lambda>t isUTC. off) now (getMinutes (\<lambda>t isUTC. off) now - k) = Some start"
    and "setMinutes (\<lambda>t isUTC. off) now (getMinutes (\<lambda>t isUTC. off) now + e) = Some expiry"
    and "0 < k" and "0 < e"
  shows "start = now - k * 60000 \<and> expiry = now + e * 60000 \<and> start < now \<and> now < expiry"
  using assms setMinutes_fixed_offset [of off now "- k"] setMinutes_fixed_offset [of off now e]
  by (auto simp: TimeClip_def split: if_splits)

lemma repeated_hour_start:
  "setMinutes amsterdam_autumn_2020 1603588200000
     (getMinutes amsterdam_autumn_2020 1603588200000 - default_to None 5) = Some 1603584300000"
  by code_simp

lemma repeated_hour_expiry:
  "setMinutes amsterdam_autumn_2020 1603588200000
     (getMinutes amsterdam_autumn_2020 1603588200000 + default_to (Some 10) 60) = Some 1603585200000"
  by code_simp

text \<open>
  C3. The start of the window is the current time less
  \<^verbatim>\<open>clockSkewMarginMinutes\<close> minutes and its end the current time plus
  \<^verbatim>\<open>expireTime\<close> minutes. The code moves the minutes of the local time, so
  this holds where the zone's offset is fixed (\<open>sas_window_fixed_offset\<close>) and
  fails in the hour a zone repeats when daylight saving time ends. In Europe/Amsterdam
  at 2020-10-25T01:10:00Z (time value 1603588200000, 02:10 local time for the second
  time), with \<^verbatim>\<open>expireTime: 10\<close> and the default margin, the signing function
  receives the start 00:05:00Z (1603584300000, 65 minutes before now) and the expiry
  00:20:00Z (1603585200000, 50 minutes before now): the token has expired when it is
  issued.
\<close>

theorem sas_window_in_repeated_hour:
  "BlobContainer_generateSasToken sdk amsterdam_autumn_2020 1603588200000 this c None None
       (Some 10) None
   = and_then (ContainerSASPermissions_parse sdk ''r'')
       (\<lambda>parsed. generateBlobSASQueryParameters sdk
          [''containerName'' \<mapsto> FString c,
           ''permissions'' \<mapsto> FPermissions parsed,
           ''startsOn'' \<mapsto> FDate (Some 1603584300000),
           ''expiresOn'' \<mapsto> FDate (Some 1603585200000)]
          (sharedKeyCredential this))"
  by (simp add: BlobContainer_generateSasToken_def repeated_hour_start repeated_hour_expiry
      truthy_def)

section \<open>Credentials at construction\<close>

lemma new_blob_success:
  assumes "BlobContainer_new sdk p = Inr this"
  shows "truthy (accountName p) \<and> (truthy (accountKey p) \<or> truthy (sasToken p)) \<and>
         accountKey this = accountKey p \<and> sasToken this = sasToken p \<and>
         (sharedKeyCredential this \<noteq> None) = truthy (accountKey p)"
  using assms
  by (auto simp: BlobContainer_new_def try_catch_def and_then_def split: if_splits sum.splits)

lemma new_queue_success:
  assumes "StorageQueue_new sdk p = Inr this"
  shows "truthy (accountName p) \<and> (truthy (accountKey p) \<or> truthy (sasToken p)) \<and>
         accountKey this = accountKey p \<and> sasToken this = sasToken p \<and>
         (sharedKeyCredential this \<noteq> None) = truthy (accountKey p)"
  using assms
  by (auto simp: StorageQueue_new_def try_catch_def and_then_def split: if_splits sum.splits)

lemma new_without_credentials:
  assumes "\<not> truthy (accountKey p)" "\<not> truthy (sasToken p)"
  shows "isl (BlobContainer_new bsdk p)" "isl (StorageQueue_new qsdk p)"
  using assms by (simp_all add: BlobContainer_new_def StorageQueue_new_def try_catch_def)

lemma demo_new_both:
  "BlobContainer_new demo_blob_sdk
       \<lparr>accountName = Some ''acct'', accountKey = Some ''key'', sasToken = Some ''sv=1''\<rparr>
     = Inr \<lparr>accountName = Some ''acct'', accountKey = Some ''key'', sasToken = Some ''sv=1'',
            sharedKeyCredential = Some (''acct'', ''key''),
            client = ''https://acct.blob.core.windows.net''\<rparr>"
  by (simp add: BlobContainer_new_def demo_blob_sdk_def try_catch_def and_then_def truthy_def
      str_def)

lemma demo_queue_new_both:
  "StorageQueue_new demo_queue_sdk
       \<lparr>accountName = Some ''acct'', accountKey = Some ''key'', sasToken = Some ''sv=1''\<rparr>
     = Inr \<lparr>accountName = Some ''acct'', accountKey = Some ''key'', sasToken = Some ''sv=1'',
            sharedKeyCredential = Some (''acct'', ''key''),
            client = ''https://acct.queue.core.windows.net''\<rparr>"
  by (simp add: StorageQueue_new_def demo_queue_sdk_def try_catch_def and_then_def truthy_def
      str_def)

text \<open>
  C4, as amended. An instance exists only if a non-empty account name and at least
  one of a non-empty account key and a non-empty token were supplied. Both may be
  supplied: the instance then stores both and is built on the account key (a
  shared-key credential is retained exactly when a non-empty key was given).
  Supplying neither makes construction fail.
\<close>

theorem construction_needs_a_credential:
  "(BlobContainer_new bsdk p = Inr this \<longrightarrow>
      truthy (accountName p) \<and> (truthy (accountKey p) \<or> truthy (sasToken p)) \<and>
      accountKey this = accountKey p \<and> sasToken this = sasToken p \<and>
      (sharedKeyCredential this \<noteq> None) = truthy (accountKey p))
   \<and> (StorageQueue_new qsdk p = Inr qthis \<longrightarrow>
      truthy (accountName p) \<and> (truthy (accountKey p) \<or> truthy (sasToken p)) \<and>
      accountKey qthis = accountKey p \<and> sasToken qthis = sasToken p \<and>
      (sharedKeyCredential qthis \<noteq> None) = truthy (accountKey p))
   \<and> (\<not> truthy (accountKey p) \<and> \<not> truthy (sasToken p) \<longrightarrow>
      isl (BlobContainer_new bsdk p) \<and> isl (StorageQueue_new qsdk p))"
  using new_blob_success [of bsdk p this] new_queue_success [of qsdk p qthis]
    new_without_credentials
  by blast

theorem construction_needs_a_credential_witness:
  "BlobContainer_new demo_blob_sdk
       \<lparr>accountName = Some ''acct'', accountKey = Some ''key'', sasToken = Some ''sv=1''\<rparr>
     = Inr \<lparr>accountName = Some ''acct'', accountKey = Some ''key'', sasToken = Some ''sv=1'',
            sharedKeyCredential = Some (''acct'', ''key''),
            client = ''https://acct.blob.core.windows.net''\<rparr>
   \<and> StorageQueue_new demo_queue_sdk
       \<lparr>accountName = Some ''acct'', accountKey = Some ''key'', sasToken = Some ''sv=1''\<rparr>
     = Inr \<lparr>accountName = Some ''acct'', accountKey = Some ''key'', sasToken = Some ''sv=1'',
            sharedKeyCredential = Some (''acct'', ''key''),
            client = ''https://acct.queue.core.windows.net''\<rparr>
   \<and> truthy (Some ''acct'') \<and> truthy (Some ''key'') \<and> truthy (Some ''sv=1'')
   \<and> \<not> truthy None \<and> \<not> truthy (Some '''')
   \<and> isl (BlobContainer_new demo_blob_sdk
             \<lparr>accountName = Some ''acct'', accountKey = None, sasToken = Some ''''\<rparr>)
   \<and> isl (StorageQueue_new demo_queue_sdk
             \<lparr>accountName = Some ''acct'', accountKey = None, sasToken = Some ''''\<rparr>)"
  using construction_needs_a_credential [of demo_blob_sdk
        "\<lparr>accountName = Some ''acct'', accountKey = Some ''key'', sasToken = Some ''sv=1''\<rparr>"
        "\<lparr>accountName = Some ''acct'', accountKey = Some ''key'', sasToken = Some ''sv=1'',
            sharedKeyCredential = Some (''acct'', ''key''),
            client = ''https://acct.blob.core.windows.net''\<rparr>"
        demo_queue_sdk
        "\<lparr>accountName = Some ''acct'', accountKey = Some ''key'', sasToken = Some ''sv=1'',
            sharedKeyCredential = Some (''acct'', ''key''),
            client = ''https://acct.queue.core.windows.net''\<rparr>"]
    construction_needs_a_credential [of demo_blob_sdk
        "\<lparr>accountName = Some ''acct'', accountKey = None, sasToken = Some ''''\<rparr>"
        _ demo_queue_sdk]
    demo_new_both demo_queue_new_both
  by (simp add: truthy_def)

text \<open>
  The claim as stated fails: the constructor accepts a key and a token together.
\<close>

theorem construction_with_key_and_token_succeeds:
  "BlobContainer_new demo_blob_sdk
       \<lparr>accountName = Some ''acct'', accountKey = Some ''key'', sasToken = Some ''sv=1''\<rparr>
     = Inr \<lparr>accountName = Some ''acct'', accountKey = Some ''key'', sasToken = Some ''sv=1'',
            sharedKeyCredential = Some (''acct'', ''key''),
            client = ''https://acct.blob.core.windows.net''\<rparr>"
  by (rule demo_new_both)

section \<open>Signing needs the shared key\<close>

lemma blob_token_instance:
  assumes "BlobContainer_new sdk p = Inr this" "\<not> truthy (accountKey p)"
  shows "sharedKeyCredential this = None"
  using assms
  by (auto simp: BlobContainer_new_def try_catch_def and_then_def split: if_splits sum.splits)

lemma blob_key_instance:
  assumes "BlobContainer_new sdk p = Inr this" "truthy (accountKey p)"
  shows "\<exists>cred. blob_StorageSharedKeyCredential sdk (str (accountName p)) (str (accountKey p))
                  = Inr cred
           \<and> sharedKeyCredential this = Some cred"
  using assms
  by (auto simp: BlobContainer_new_def try_catch_def and_then_def split: if_splits sum.splits)

lemma blob_sas_without_credential:
  assumes "sharedKeyCredential this = None"
    and "\<forall>values. isl (generateBlobSASQueryParameters sdk values None)"
  shows "isl (BlobContainer_generateSasToken sdk tza now this c b perms et skew)"
  using assms
  by (auto simp: BlobContainer_generateSasToken_def and_then_def Let_def split: sum.splits)

lemma blob_sas_call:
  "\<exists>values. BlobContainer_generateSasToken sdk tza now this c b perms et skew =
      and_then ((if truthy b then BlobSASPermissions_parse sdk
                 else ContainerSASPermissions_parse sdk)
                  (if truthy perms then str perms else ''r''))
        (\<lambda>parsed. generateBlobSASQueryParameters sdk (values parsed) (sharedKeyCredential this))"
proof (cases "truthy b")
  case True
  show ?thesis
    unfolding BlobContainer_generateSasToken_def Let_def
    by (rule exI [of _ "\<lambda>parsed. [''containerName'' \<mapsto> FString c,
           ''blobName'' \<mapsto> FString (str b),
           ''permissions'' \<mapsto> FPermissions parsed,
           ''startsOn'' \<mapsto> FDate (setMinutes tza now (getMinutes tza now - default_to skew 5)),
           ''expiresOn'' \<mapsto> FDate (setMinutes tza now (getMinutes tza now + default_to et 60))]"])
       (simp add: True)
next
  case False
  show ?thesis
    unfolding BlobContainer_generateSasToken_def Let_def
    by (rule exI [of _ "\<lambda>parsed. [''containerName'' \<mapsto> FString c,
           ''permissions'' \<mapsto> FPermissions parsed,
           ''startsOn'' \<mapsto> FDate (setMinutes tza now (getMinutes tza now - default_to skew 5)),
           ''expiresOn'' \<mapsto> FDate (setMinutes tza now (getMinutes tza now + default_to et 60))]"])
       (simp add: False)
qed

lemma queue_token_instance:
  assumes "StorageQueue_new sdk p = Inr this" "\<not> truthy (accountKey p)"
  shows "sharedKeyCredential this = None"
  using assms
  by (auto simp: StorageQueue_new_def try_catch_def and_then_def split: if_splits sum.splits)

lemma queue_key_instance:
  assumes "StorageQueue_new sdk p = Inr this" "truthy (accountKey p)"
  shows "\<exists>cred. queue_StorageSharedKeyCredential sdk (str (accountName p)) (str (accountKey p))
                  = Inr cred
           \<and> sharedKeyCredential this = Some cred"
  using assms
  by (auto simp: StorageQueue_new_def try_catch_def and_then_def split: if_splits sum.splits)

lemma queue_sas_without_credential:
  assumes "sharedKeyCredential this = None"
    and "\<forall>values. isl (generateQueueSASQueryParameters sdk values None)"
  shows "isl (StorageQueue_generateSasToken sdk tza now this q perms et skew)"
  using assms
  by (auto simp: StorageQueue_generateSasToken_def and_then_def Let_def split: sum.splits)

lemma queue_sas_call:
  "\<exists>values. (\<forall>parsed. values parsed ''queueName'' = None
                      \<and> values parsed ''containerName'' = Some (FString q)
                      \<and> values parsed ''permissions'' = Some (FPermissions parsed)) \<and>
      StorageQueue_generateSasToken sdk tza now this q perms et skew =
      and_then (QueueSASPermissions_parse sdk (if truthy perms then str perms else ''r''))
        (\<lambda>parsed. generateQueueSASQueryParameters sdk (values parsed) (sharedKeyCredential this))"
  unfolding StorageQueue_generateSasToken_def Let_def
  by (rule exI [of _ "\<lambda>parsed. [''containerName'' \<mapsto> FString q,
         ''permissions'' \<mapsto> FPermissions parsed,
         ''startsOn'' \<mapsto> FDate (setMinutes tza now (getMinutes tza now - default_to skew 5)),
         ''expiresOn'' \<mapsto> FDate (setMinutes tza now (getMinutes tza now + default_to et 60))]"])
     simp

text \<open>
  C5. An instance built from a token (no account key) retains no signing credential,
  and every call of \<^verbatim>\<open>generateSasToken\<close> on it fails, given that the SDK's
  signing function throws when it is handed \<^verbatim>\<open>undefined\<close> for the credential.
  An instance built from an account key holds the credential the SDK made from the
  account name and key at construction, and \<^verbatim>\<open>generateSasToken\<close> hands that
  credential to the signing function in every call it makes. Both classes.
\<close>

theorem token_instances_cannot_sign:
  "(BlobContainer_new sdk p = Inr this \<longrightarrow>
      (\<not> truthy (accountKey p) \<longrightarrow>
         sharedKeyCredential this = None \<and>
         ((\<forall>values. isl (generateBlobSASQueryParameters sdk values None)) \<longrightarrow>
            isl (BlobContainer_generateSasToken sdk tza now this c b perms et skew))) \<and>
      (truthy (accountKey p) \<longrightarrow>
         (\<exists>cred values.
            blob_StorageSharedKeyCredential sdk (str (accountName p)) (str (accountKey p))
              = Inr cred \<and>
            sharedKeyCredential this = Some cred \<and>
            BlobContainer_generateSasToken sdk tza now this c b perms et skew =
              and_then ((if truthy b then BlobSASPermissions_parse sdk
                         else ContainerSASPermissions_parse sdk)
                          (if truthy perms then str perms else ''r''))
                (\<lambda>parsed. generateBlobSASQueryParameters sdk (values parsed) (Some cred)))))
   \<and> (StorageQueue_new qsdk p = Inr qthis \<longrightarrow>
      (\<not> truthy (accountKey p) \<longrightarrow>
         sharedKeyCredential qthis = None \<and>
         ((\<forall>values. isl (generateQueueSASQueryParameters qsdk values None)) \<longrightarrow>
            isl (StorageQueue_generateSasToken qsdk tza now qthis q perms et skew))) \<and>
      (truthy (accountKey p) \<longrightarrow>
         (\<exists>cred values.
            queue_StorageSharedKeyCredential qsdk (str (accountName p)) (str (accountKey p))
              = Inr cred \<and>
            sharedKeyCredential qthis = Some cred \<and>
            StorageQueue_generateSasToken qsdk tza now qthis q perms et skew =
              and_then (QueueSASPermissions_parse qsdk (if truthy perms then str perms else ''r''))
                (\<lambda>parsed. generateQueueSASQueryParameters qsdk (values parsed) (Some cred)))))"
proof (intro conjI impI)
  assume new: "BlobContainer_new sdk p = Inr this" and key: "\<not> truthy (accountKey p)"
  show "sharedKeyCredential this = None"
    by (rule blob_token_instance [OF new key])
next
  assume new: "BlobContainer_new sdk p = Inr this" and key: "\<not> truthy (accountKey p)"
    and fails: "\<forall>values. isl (generateBlobSASQueryParameters sdk values None)"
  show "isl (BlobContainer_generateSasToken sdk tza now this c b perms et skew)"
    by (rule blob_sas_without_credential [OF blob_token_instance [OF new key] fails])
next
  assume new: "BlobContainer_new sdk p = Inr this" and key: "truthy (accountKey p)"
  from blob_key_instance [OF new key] obtain cred where
    cred: "blob_StorageSharedKeyCredential sdk (str (accountName p)) (str (accountKey p)) = Inr cred"
      "sharedKeyCredential this = Some cred"
    by blast
  from blob_sas_call [of sdk tza now this c b perms et skew] cred
  show "\<exists>cred values.
            blob_StorageSharedKeyCredential sdk (str (accountName p)) (str (accountKey p))
              = Inr cred \<and>
            sharedKeyCredential this = Some cred \<and>
            BlobContainer_generateSasToken sdk tza now this c b perms et skew =
              and_then ((if truthy b then BlobSASPermissions_parse sdk
                         else ContainerSASPermissions_parse sdk)
                          (if truthy perms then str perms else ''r''))
                (\<lambda>parsed. generateBlobSASQueryParameters sdk (values parsed) (Some cred))"
    by auto
next
  assume new: "StorageQueue_new qsdk p = Inr qthis" and key: "\<not> truthy (accountKey p)"
  show "sharedKeyCredential qthis = None"
    by (rule queue_token_instance [OF new key])
next
  assume new: "StorageQueue_new qsdk p = Inr qthis" and key: "\<not> truthy (accountKey p)"
    and fails: "\<forall>values. isl (generateQueueSASQueryParameters qsdk values None)"
  show "isl (StorageQueue_generateSasToken qsdk tza now qthis q perms et skew)"
    by (rule queue_sas_without_credential [OF queue_token_instance [OF new key] fails])
next
  assume new: "StorageQueue_new qsdk p = Inr qthis" and key: "truthy (accountKey p)"
  from queue_key_instance [OF new key] obtain cred where
    cred: "queue_StorageSharedKeyCredential qsdk (str (accountName p)) (str (accountKey p)) = Inr cred"
      "sharedKeyCredential qthis = Some cred"
    by blast
  from queue_sas_call [of q qsdk tza now qthis perms et skew] cred
  show "\<exists>cred values.
            queue_StorageSharedKeyCredential qsdk (str (accountName p)) (str (accountKey p))
              = Inr cred \<and>
            sharedKeyCredential qthis = Some cred \<and>
            StorageQueue_generateSasToken qsdk tza now qthis q perms et skew =
              and_then (QueueSASPermissions_parse qsdk (if truthy perms then str perms else ''r''))
                (\<lambda>parsed. generateQueueSASQueryParameters qsdk (values parsed) (Some cred))"
    by auto
qed

lemma demo_new_token:
  "BlobContainer_new demo_blob_sdk
       \<lparr>accountName = Some ''acct'', accountKey = None, sasToken = Some ''sv=1''\<rparr>
     = Inr demo_token_instance"
  by (simp add: BlobContainer_new_def demo_blob_sdk_def demo_token_instance_def try_catch_def
      and_then_def truthy_def str_def)

lemma demo_new_key:
  "BlobContainer_new demo_blob_sdk
       \<lparr>accountName = Some ''acct'', accountKey = Some ''key'', sasToken = None\<rparr>
     = Inr demo_instance"
  by (simp add: BlobContainer_new_def demo_blob_sdk_def demo_instance_def try_catch_def
      and_then_def truthy_def str_def)

lemma demo_queue_new_token:
  "StorageQueue_new demo_queue_sdk
       \<lparr>accountName = Some ''acct'', accountKey = None, sasToken = Some ''sv=1''\<rparr>
     = Inr demo_queue_token_instance"
  by (simp add: StorageQueue_new_def demo_queue_sdk_def demo_queue_token_instance_def
      try_catch_def and_then_def truthy_def str_def)

lemma demo_queue_new_key:
  "StorageQueue_new demo_queue_sdk
       \<lparr>accountName = Some ''acct'', accountKey = Some ''key'', sasToken = None\<rparr>
     = Inr demo_queue_instance"
  by (simp add: StorageQueue_new_def demo_queue_sdk_def demo_queue_instance_def try_catch_def
      and_then_def truthy_def str_def)

lemma demo_signing_needs_credential:
  "\<forall>values. isl (generateBlobSASQueryParameters demo_blob_sdk values None)"
  "\<forall>values. isl (generateQueueSASQueryParameters demo_queue_sdk values None)"
  by (simp_all add: demo_blob_sdk_def demo_queue_sdk_def)

theorem token_instances_cannot_sign_witness:
  "BlobContainer_new demo_blob_sdk
       \<lparr>accountName = Some ''acct'', accountKey = None, sasToken = Some ''sv=1''\<rparr>
     = Inr demo_token_instance
   \<and> \<not> truthy None
   \<and> (\<forall>values. isl (generateBlobSASQueryParameters demo_blob_sdk values None))
   \<and> sharedKeyCredential demo_token_instance = None
   \<and> isl (BlobContainer_generateSasToken demo_blob_sdk utc 1590000000000 demo_token_instance
            ''c1'' (Some ''a.csv'') None None None)
   \<and> BlobContainer_new demo_blob_sdk
       \<lparr>accountName = Some ''acct'', accountKey = Some ''key'', sasToken = None\<rparr>
     = Inr demo_instance
   \<and> truthy (Some ''key'')
   \<and> sharedKeyCredential demo_instance = Some (''acct'', ''key'')
   \<and> StorageQueue_new demo_queue_sdk
       \<lparr>accountName = Some ''acct'', accountKey = None, sasToken = Some ''sv=1''\<rparr>
     = Inr demo_queue_token_instance
   \<and> (\<forall>values. isl (generateQueueSASQueryParameters demo_queue_sdk values None))
   \<and> isl (StorageQueue_generateSasToken demo_queue_sdk utc 1590000000000
            demo_queue_token_instance ''orders'' None None None)
   \<and> StorageQueue_new demo_queue_sdk
       \<lparr>accountName = Some ''acct'', accountKey = Some ''key'', sasToken = None\<rparr>
     = Inr demo_queue_instance
   \<and> sharedKeyCredential demo_queue_instance = Some (''acct'', ''key'')"
proof -
  have t: "\<not> truthy None" "truthy (Some ''key'')"
    by (simp_all add: truthy_def)
  note tok = token_instances_cannot_sign
    [of demo_blob_sdk
        "\<lparr>accountName = Some ''acct'', accountKey = None, sasToken = Some ''sv=1''\<rparr>"
        demo_token_instance utc 1590000000000 "''c1''" "Some ''a.csv''" None None None
        demo_queue_sdk demo_queue_token_instance "''orders''"]
  note key = token_instances_cannot_sign
    [of demo_blob_sdk
        "\<lparr>accountName = Some ''acct'', accountKey = Some ''key'', sasToken = None\<rparr>"
        demo_instance utc 1590000000000 "''c1''" "Some ''a.csv''" None None None
        demo_queue_sdk demo_queue_instance "''orders''"]
  from tok demo_new_token demo_queue_new_token demo_signing_needs_credential t
  have a: "sharedKeyCredential demo_token_instance = None"
    "isl (BlobContainer_generateSasToken demo_blob_sdk utc 1590000000000 demo_token_instance
            ''c1'' (Some ''a.csv'') None None None)"
    "isl (StorageQueue_generateSasToken demo_queue_sdk utc 1590000000000
            demo_queue_token_instance ''orders'' None None None)"
    by simp_all
  from key demo_new_key demo_queue_new_key t
  have b: "sharedKeyCredential demo_instance = Some (''acct'', ''key'')"
    "sharedKeyCredential demo_queue_instance = Some (''acct'', ''key'')"
    by (auto simp: demo_blob_sdk_def demo_queue_sdk_def str_def)
  from a b t demo_new_token demo_new_key demo_queue_new_token demo_queue_new_key
    demo_signing_needs_credential
  show ?thesis by simp
qed

section \<open>Permissions and scope of a token\<close>

text \<open>
  C6. Permissions default to \<^verbatim>\<open>'r'\<close> when they are left out, null or empty.
  With a blob name the blob's permission parser is used and the signature values
  carry \<^verbatim>\<open>containerName\<close> and \<^verbatim>\<open>blobName\<close>; without one the container's
  parser is used and the values carry \<^verbatim>\<open>containerName\<close> alone. For a queue
  the queue's parser is used, and the queue's name is passed under the key
  \<^verbatim>\<open>containerName\<close>: the values have no key \<^verbatim>\<open>queueName\<close>, which is the
  key the queue SDK's signing function reads the resource from.
\<close>

theorem sas_permissions_and_scope:
  "BlobContainer_generateSasToken sdk tza now this c (Some (x # xs)) perms et skew =
     and_then (BlobSASPermissions_parse sdk (if truthy perms then str perms else ''r''))
       (\<lambda>parsed. generateBlobSASQueryParameters sdk
          [''containerName'' \<mapsto> FString c,
           ''blobName'' \<mapsto> FString (x # xs),
           ''permissions'' \<mapsto> FPermissions parsed,
           ''startsOn'' \<mapsto> FDate (setMinutes tza now (getMinutes tza now - default_to skew 5)),
           ''expiresOn'' \<mapsto> FDate (setMinutes tza now (getMinutes tza now + default_to et 60))]
          (sharedKeyCredential this))
   \<and> BlobContainer_generateSasToken sdk tza now this c None perms et skew =
     and_then (ContainerSASPermissions_parse sdk (if truthy perms then str perms else ''r''))
       (\<lambda>parsed. generateBlobSASQueryParameters sdk
          [''containerName'' \<mapsto> FString c,
           ''permissions'' \<mapsto> FPermissions parsed,
           ''startsOn'' \<mapsto> FDate (setMinutes tza now (getMinutes tza now - default_to skew 5)),
           ''expiresOn'' \<mapsto> FDate (setMinutes tza now (getMinutes tza now + default_to et 60))]
          (sharedKeyCredential this))
   \<and> (\<exists>values.
        (\<forall>parsed. values parsed ''queueName'' = None
                 \<and> values parsed ''containerName'' = Some (FString q)
                 \<and> values parsed ''permissions'' = Some (FPermissions parsed)) \<and>
        StorageQueue_generateSasToken qsdk tza now qthis q perms et skew =
          and_then (QueueSASPermissions_parse qsdk (if truthy perms then str perms else ''r''))
            (\<lambda>parsed. generateQueueSASQueryParameters qsdk (values parsed)
               (sharedKeyCredential qthis)))"
proof (intro conjI)
  show "BlobContainer_generateSasToken sdk tza now this c (Some (x # xs)) perms et skew =
     and_then (BlobSASPermissions_parse sdk (if truthy perms then str perms else ''r''))
       (\<lambda>parsed. generateBlobSASQueryParameters sdk
          [''containerName'' \<mapsto> FString c,
           ''blobName'' \<mapsto> FString (x # xs),
           ''permissions'' \<mapsto> FPermissions parsed,
           ''startsOn'' \<mapsto> FDate (setMinutes tza now (getMinutes tza now - default_to skew 5)),
           ''expiresOn'' \<mapsto> FDate (setMinutes tza now (getMinutes tza now + default_to et 60))]
          (sharedKeyCredential this))"
    by (simp add: BlobContainer_generateSasToken_def Let_def truthy_def str_def)
  show "BlobContainer_generateSasToken sdk tza now this c None perms et skew =
     and_then (ContainerSASPermissions_parse sdk (if truthy perms then str perms else ''r''))
       (\<lambda>parsed. generateBlobSASQueryParameters sdk
          [''containerName'' \<mapsto> FString c,
           ''permissions'' \<mapsto> FPermissions parsed,
           ''startsOn'' \<mapsto> FDate (setMinutes tza now (getMinutes tza now - default_to skew 5)),
           ''expiresOn'' \<mapsto> FDate (setMinutes tza now (getMinutes tza now + default_to et 60))]
          (sharedKeyCredential this))"
    by (simp add: BlobContainer_generateSasToken_def Let_def truthy_def str_def)
  show "\<exists>values.
        (\<forall>parsed. values parsed ''queueName'' = None
                 \<and> values parsed ''containerName'' = Some (FString q)
                 \<and> values parsed ''permissions'' = Some (FPermissions parsed)) \<and>
        StorageQueue_generateSasToken qsdk tza now qthis q perms et skew =
          and_then (QueueSASPermissions_parse qsdk (if truthy perms then str perms else ''r''))
            (\<lambda>parsed. generateQueueSASQueryParameters qsdk (values parsed)
               (sharedKeyCredential qthis))"
    by (rule queue_sas_call)
qed

section \<open>Blob content\<close>

text \<open>
  C7. A call of \<^verbatim>\<open>getBlobContent\<close> succeeds with the string \<open>s\<close> exactly
  when the download requested from offset 0 with no count succeeds, its stream ends
  without an error, and \<open>s\<close> is the concatenation, in order, of the strings of all
  the chunks the stream delivered.
\<close>

theorem getBlobContent_drains_stream:
  "BlobContainer_getBlobContent sdk this c b = Inr s \<longleftrightarrow>
     (\<exists>resp. BlockBlobClient_download sdk (client this) c b 0 None = Inr resp \<and>
             stream_failure (readableStreamBody resp) = None \<and>
             s = concat (map (Buffer_toString sdk) (stream_chunks (readableStreamBody resp))))"
  by (auto simp: getBlobContent_outcome and_then_def stream_outcome_def
      split: sum.splits option.splits)

lemma demo_getBlobContent:
  "BlobContainer_getBlobContent demo_blob_sdk demo_instance ''c1'' ''a.csv'' = Inr ''x,y''"
  by code_simp

theorem getBlobContent_drains_stream_witness:
  "BlobContainer_getBlobContent demo_blob_sdk demo_instance ''c1'' ''a.csv'' = Inr ''x,y'' \<and>
   (\<exists>resp. BlockBlobClient_download demo_blob_sdk (client demo_instance) ''c1'' ''a.csv'' 0 None
             = Inr resp \<and>
           stream_failure (readableStreamBody resp) = None \<and>
           ''x,y'' = concat (map (Buffer_toString demo_blob_sdk)
                              (stream_chunks (readableStreamBody resp))))"
  using getBlobContent_drains_stream
      [of demo_blob_sdk demo_instance "''c1''" "''a.csv''" "''x,y''"]
    demo_getBlobContent
  by blast

text \<open>
  The count \<^verbatim>\<open>Buffer.byteLength\<close> gives is the number of bytes of the content:
  of its UTF-8 encoding for a string, of the buffer for a buffer.
\<close>

lemma length_utf8_bytes:
  "length (utf8_bytes cp) =
     (if cp < 0x80 then 1 else if cp < 0x800 then 2 else if cp < 0x10000 then 3 else 4)"
  by (simp add: utf8_bytes_def)

lemma length_scalar_value:
  "length (utf8_bytes (scalar_value u)) = (if u < 0x80 then 1 else if u < 0x800 then 2 else 3)"
proof -
  have "uint u < 65536" using uint_bounded [of u] by simp
  then show ?thesis
    by (auto simp: length_utf8_bytes scalar_value_def word_less_def word_le_def)
qed

lemma utf8_length_encode: "utf8_length s = length (utf8_encode s)"
proof (induction s rule: utf8_length.induct)
  case 1
  show ?case by (simp add: utf8_encode_def)
next
  case (2 u)
  show ?case by (simp add: utf8_encode_def length_scalar_value)
next
  case (3 u v us)
  show ?case
  proof (cases "0xD800 \<le> u \<and> u < 0xDC00 \<and> 0xDC00 \<le> v \<and> v < 0xE000")
    case True
    then have small: "\<not> u < 0x80" "\<not> u < 0x800"
      and big: "0xD800 \<le> uint u" "0xDC00 \<le> uint v"
      by (auto simp: word_less_def word_le_def)
    from big have "\<not> 0x10000 + (uint u - 0xD800) * 1024 + (uint v - 0xDC00) < 0x10000"
      by simp
    with True small 3 show ?thesis
      by (simp add: utf8_encode_def length_utf8_bytes)
  next
    case False
    with 3 show ?thesis
      by (auto simp: utf8_encode_def length_scalar_value)
  qed
qed

lemma byteLength_content_bytes: "byteLength body = length (content_bytes body)"
  by (cases body) (simp_all add: utf8_length_encode)

text \<open>
  C8. \<^verbatim>\<open>createBlob\<close> takes no length from its caller. It succeeds with the
  request identifier \<open>rid\<close> exactly when the upload of the content, called with
  the number of bytes of the content (of its UTF-8 encoding when it is a string) as
  the length, succeeds with a response whose request identifier is \<open>rid\<close>.
\<close>

theorem createBlob_uploads_byte_length:
  "BlobContainer_createBlob sdk this c b body = Inr rid \<longleftrightarrow>
     (\<exists>resp. BlockBlobClient_upload sdk (client this) c b body (length (content_bytes body))
               = Inr resp \<and>
             rid = requestId resp)"
  by (auto simp: createBlob_outcome byteLength_content_bytes split: sum.splits)

text \<open>
  Four contents: U+0063 U+00E9 (one and two bytes), the surrogate pair of U+1F600
  (four bytes), U+20AC followed by a lone low surrogate (three bytes each, the
  surrogate as U+FFFD), and a buffer of two bytes.
\<close>

lemma demo_bytes_latin:
  "content_bytes (StringContent [0x63, 0xE9]) = [0x63, 0xC3, 0xA9]"
  by code_simp

lemma demo_bytes_pair:
  "content_bytes (StringContent [0xD83D, 0xDE00]) = [0xF0, 0x9F, 0x98, 0x80]"
  by code_simp

lemma demo_bytes_lone:
  "content_bytes (StringContent [0x20AC, 0xDC00]) = [0xE2, 0x82, 0xAC, 0xEF, 0xBF, 0xBD]"
  by code_simp

lemma demo_createBlob:
  "BlobContainer_createBlob demo_blob_sdk demo_instance ''c1'' ''a.csv'' body = Inr ''req-upload''"
  by (simp add: BlobContainer_createBlob_def demo_blob_sdk_def try_catch_def and_then_def
      byteLength_content_bytes)

theorem createBlob_uploads_byte_length_witness:
  "content_bytes (StringContent [0x63, 0xE9]) = [0x63, 0xC3, 0xA9]
   \<and> content_bytes (StringContent [0xD83D, 0xDE00]) = [0xF0, 0x9F, 0x98, 0x80]
   \<and> content_bytes (StringContent [0x20AC, 0xDC00]) = [0xE2, 0x82, 0xAC, 0xEF, 0xBF, 0xBD]
   \<and> BlobContainer_createBlob demo_blob_sdk demo_instance ''c1'' ''a.csv''
        (StringContent [0x63, 0xE9]) = Inr ''req-upload''
   \<and> (\<exists>resp. BlockBlobClient_upload demo_blob_sdk (client demo_instance) ''c1'' ''a.csv''
             (StringContent [0x63, 0xE9]) 3 = Inr resp \<and> ''req-upload'' = requestId resp)
   \<and> (\<exists>resp. BlockBlobClient_upload demo_blob_sdk (client demo_instance) ''c1'' ''a.csv''
             (StringContent [0xD83D, 0xDE00]) 4 = Inr resp \<and> ''req-upload'' = requestId resp)
   \<and> (\<exists>resp. BlockBlobClient_upload demo_blob_sdk (client demo_instance) ''c1'' ''a.csv''
             (StringContent [0x20AC, 0xDC00]) 6 = Inr resp \<and> ''req-upload'' = requestId resp)
   \<and> (\<exists>resp. BlockBlobClient_upload demo_blob_sdk (client demo_instance) ''c1'' ''a.csv''
             (BufferContent [0x01, 0x02]) 2 = Inr resp \<and> ''req-upload'' = requestId resp)"
proof -
  have l1: "length (content_bytes (StringContent [0x63, 0xE9])) = 3"
    by code_simp
  have l2: "length (content_bytes (StringContent [0xD83D, 0xDE00])) = 4"
    by code_simp
  have l3: "length (content_bytes (StringContent [0x20AC, 0xDC00])) = 6"
    by code_simp
  have l4: "length (content_bytes (BufferContent [0x01, 0x02])) = 2"
    by code_simp
  note w1 = createBlob_uploads_byte_length
    [of demo_blob_sdk demo_instance "''c1''" "''a.csv''" "StringContent [0x63, 0xE9]"
      "''req-upload''", unfolded l1, THEN iffD1, OF demo_createBlob]
  note w2 = createBlob_uploads_byte_length
    [of demo_blob_sdk demo_instance "''c1''" "''a.csv''" "StringContent [0xD83D, 0xDE00]"
      "''req-upload''", unfolded l2, THEN iffD1, OF demo_createBlob]
  note w3 = createBlob_uploads_byte_length
    [of demo_blob_sdk demo_instance "''c1''" "''a.csv''" "StringContent [0x20AC, 0xDC00]"
      "''req-upload''", unfolded l3, THEN iffD1, OF demo_createBlob]
  note w4 = createBlob_uploads_byte_length
    [of demo_blob_sdk demo_instance "''c1''" "''a.csv''" "BufferContent [0x01, 0x02]"
      "''req-upload''", unfolded l4, THEN iffD1, OF demo_createBlob]
  show ?thesis
    by (intro conjI)
      (rule demo_bytes_latin demo_bytes_pair demo_bytes_lone demo_createBlob w1 w2 w3 w4)+
qed

section \<open>Listing queues\<close>

text \<open>
  C9. \<^verbatim>\<open>list\<close> passes the prefix to the SDK's listing only when it is not
  empty: with a non-empty prefix the options carry it, with a null or empty prefix the
  options are empty. When the enumeration yields the queues \<open>qs\<close> and ends, the
  result is the list of their names, in order.
\<close>

theorem list_passes_nonempty_prefix:
  "(truthy p \<longrightarrow>
      listQueues sdk (client this) (Some \<lparr>prefix = p\<rparr>) = Inr (paged_of qs) \<longrightarrow>
      StorageQueue_list sdk this p = Inr (map name qs))
   \<and> (\<not> truthy p \<longrightarrow>
      listQueues sdk (client this) (Some \<lparr>prefix = None\<rparr>) = Inr (paged_of qs) \<longrightarrow>
      StorageQueue_list sdk this p = Inr (map name qs))"
  by (simp add: queue_list_outcome and_then_def paged_of_outcome)

lemma demo_listQueues_test:
  "listQueues demo_queue_sdk (client demo_queue_instance) (Some \<lparr>prefix = Some ''test''\<rparr>)
     = Inr (paged_of [\<lparr>name = ''test1''\<rparr>])"
  by (simp add: demo_queue_sdk_def demo_queues_def starts_with_def)

lemma demo_listQueues_all:
  "listQueues demo_queue_sdk (client demo_queue_instance) (Some \<lparr>prefix = None\<rparr>)
     = Inr (paged_of [\<lparr>name = ''orders''\<rparr>, \<lparr>name = ''test1''\<rparr>])"
  by (simp add: demo_queue_sdk_def demo_queues_def starts_with_def)

theorem list_passes_nonempty_prefix_witness:
  "truthy (Some ''test'') \<and> \<not> truthy (Some '''') \<and>
   StorageQueue_list demo_queue_sdk demo_queue_instance (Some ''test'') = Inr [''test1''] \<and>
   StorageQueue_list demo_queue_sdk demo_queue_instance (Some '''')
     = Inr [''orders'', ''test1'']"
  using list_passes_nonempty_prefix
      [of "Some ''test''" demo_queue_sdk demo_queue_instance "[\<lparr>name = ''test1''\<rparr>]"]
    list_passes_nonempty_prefix
      [of "Some ''''" demo_queue_sdk demo_queue_instance
          "[\<lparr>name = ''orders''\<rparr>, \<lparr>name = ''test1''\<rparr>]"]
    demo_listQueues_test demo_listQueues_all
  by (simp add: truthy_def)

section \<open>The two definitions of StorageQueue\<close>

text \<open>
  C10, as amended. The two definitions of StorageQueue agree on their common surface
  when the methods of the second are called with their parameter object: the
  constructor, \<^verbatim>\<open>create\<close>, \<^verbatim>\<open>delete\<close> and \<^verbatim>\<open>peekMessages\<close> give the
  same result or the same error on every input; \<^verbatim>\<open>list\<close> of the second, called
  with an object whose prefix is absent, null or empty, equals \<^verbatim>\<open>list\<close> of the
  first; \<^verbatim>\<open>sendMessage\<close> of the second with no time to live and no visibility
  timeout equals \<^verbatim>\<open>sendMessage\<close> of the first. The first definition calls
  \<^verbatim>\<open>listQueues()\<close> and \<^verbatim>\<open>sendMessage(message)\<close>, the second passes an
  empty options object; the two calls are the same for an SDK whose options parameter
  defaults to the empty object, which is the premise of those two parts. Called as
  \<^verbatim>\<open>list()\<close>, the call form of the first definition, the second rejects with
  the \<^verbatim>\<open>TypeError\<close> of the destructuring and lists nothing.
\<close>

theorem StorageQueue_definitions_agree:
  "StorageQueue1_new sdk p = StorageQueue_new sdk p
   \<and> StorageQueue1_create sdk this q = StorageQueue_create sdk this q
   \<and> StorageQueue1_delete sdk this q = StorageQueue_delete sdk this q
   \<and> StorageQueue1_peekMessages sdk this q = StorageQueue_peekMessages sdk this q
   \<and> (listQueues sdk (client this) None
         = listQueues sdk (client this) (Some \<lparr>prefix = None\<rparr>) \<longrightarrow>
        \<not> truthy pfx \<longrightarrow>
        StorageQueue_list sdk this pfx = StorageQueue1_list sdk this)
   \<and> (QueueClient_sendMessage sdk (client this) q m None =
        QueueClient_sendMessage sdk (client this) q m
          (Some \<lparr>messageTimeToLive = None, visibilityTimeout = None\<rparr>) \<longrightarrow>
        \<not> truthy_num ttl \<longrightarrow> \<not> truthy_num vt \<longrightarrow>
        StorageQueue_sendMessage sdk this q m ttl vt = StorageQueue1_sendMessage sdk this q m)
   \<and> StorageQueue_list_call sdk this (Some pfx) = StorageQueue_list sdk this pfx
   \<and> StorageQueue_list_call sdk this None = Inl destructure_TypeError"
proof (intro conjI impI)
  show "StorageQueue_list_call sdk this (Some pfx) = StorageQueue_list sdk this pfx"
    by (simp add: StorageQueue_list_call_def)
  show "StorageQueue_list_call sdk this None = Inl destructure_TypeError"
    by (simp add: StorageQueue_list_call_def)
  show "StorageQueue1_new sdk p = StorageQueue_new sdk p"
    by (simp add: StorageQueue1_new_def StorageQueue_new_def)
  show "StorageQueue1_create sdk this q = StorageQueue_create sdk this q"
    by (simp add: StorageQueue1_create_def StorageQueue_create_def)
  show "StorageQueue1_delete sdk this q = StorageQueue_delete sdk this q"
    by (simp add: StorageQueue1_delete_def StorageQueue_delete_def)
  show "StorageQueue1_peekMessages sdk this q = StorageQueue_peekMessages sdk this q"
    by (simp add: StorageQueue1_peekMessages_def StorageQueue_peekMessages_def)
next
  assume "listQueues sdk (client this) None
            = listQueues sdk (client this) (Some \<lparr>prefix = None\<rparr>)"
    and "\<not> truthy pfx"
  then show "StorageQueue_list sdk this pfx = StorageQueue1_list sdk this"
    by (simp add: StorageQueue_list_def StorageQueue1_list_def)
next
  assume "QueueClient_sendMessage sdk (client this) q m None =
        QueueClient_sendMessage sdk (client this) q m
          (Some \<lparr>messageTimeToLive = None, visibilityTimeout = None\<rparr>)"
    and "\<not> truthy_num ttl" and "\<not> truthy_num vt"
  then show "StorageQueue_sendMessage sdk this q m ttl vt = StorageQueue1_sendMessage sdk this q m"
    by (simp add: StorageQueue_sendMessage_def StorageQueue1_sendMessage_def)
qed

lemma demo_list1:
  "StorageQueue1_list demo_queue_sdk demo_queue_instance = Inr [''orders'', ''test1'']"
  by (simp add: StorageQueue1_list_def demo_queue_sdk_def demo_queues_def starts_with_def
      try_catch_def and_then_def)

lemma demo_send1:
  "StorageQueue1_sendMessage demo_queue_sdk demo_queue_instance ''orders'' ''hello''
     = Inr \<lparr>send_messageId = ''msg-1'', send_requestId = ''req-send''\<rparr>"
  by (simp add: StorageQueue1_sendMessage_def demo_queue_sdk_def try_catch_def and_then_def)

theorem StorageQueue_definitions_agree_witness:
  "listQueues demo_queue_sdk (client demo_queue_instance) None
     = listQueues demo_queue_sdk (client demo_queue_instance) (Some \<lparr>prefix = None\<rparr>)
   \<and> QueueClient_sendMessage demo_queue_sdk (client demo_queue_instance) ''orders'' ''hello'' None
     = QueueClient_sendMessage demo_queue_sdk (client demo_queue_instance) ''orders'' ''hello''
         (Some \<lparr>messageTimeToLive = None, visibilityTimeout = None\<rparr>)
   \<and> \<not> truthy None \<and> \<not> truthy_num None \<and> \<not> truthy_num (Some 0)
   \<and> StorageQueue_list demo_queue_sdk demo_queue_instance None = Inr [''orders'', ''test1'']
   \<and> StorageQueue_sendMessage demo_queue_sdk demo_queue_instance ''orders'' ''hello'' None (Some 0)
       = Inr \<lparr>send_messageId = ''msg-1'', send_requestId = ''req-send''\<rparr>"
proof -
  have l: "listQueues demo_queue_sdk (client demo_queue_instance) None
     = listQueues demo_queue_sdk (client demo_queue_instance) (Some \<lparr>prefix = None\<rparr>)"
    by (simp add: demo_queue_sdk_def)
  have s: "QueueClient_sendMessage demo_queue_sdk (client demo_queue_instance) ''orders'' ''hello''
             None =
        QueueClient_sendMessage demo_queue_sdk (client demo_queue_instance) ''orders'' ''hello''
          (Some \<lparr>messageTimeToLive = None, visibilityTimeout = None\<rparr>)"
    by (simp add: demo_queue_sdk_def)
  have t: "\<not> truthy None" "\<not> truthy_num None" "\<not> truthy_num (Some 0)"
    by (simp_all add: truthy_def truthy_num_def)
  note eq = StorageQueue_definitions_agree
    [of demo_queue_sdk _ demo_queue_instance "''orders''" None "''hello''" None "Some 0"]
  from eq l t have "StorageQueue_list demo_queue_sdk demo_queue_instance None
      = StorageQueue1_list demo_queue_sdk demo_queue_instance"
    by blast
  moreover from eq s t
  have "StorageQueue_sendMessage demo_queue_sdk demo_queue_instance ''orders'' ''hello'' None (Some 0)
      = StorageQueue1_sendMessage demo_queue_sdk demo_queue_instance ''orders'' ''hello''"
    by blast
  ultimately show ?thesis
    using l s t by (simp add: demo_list1 demo_send1)
qed

text \<open>
  The claim as stated fails on \<^verbatim>\<open>list()\<close>: a call with no prefix, and the
  only way to call the first definition's \<^verbatim>\<open>list\<close>. The first definition
  returns the names of the queues; the second rejects with a \<^verbatim>\<open>TypeError\<close>.
\<close>

theorem list_without_argument_differs:
  "StorageQueue1_list demo_queue_sdk demo_queue_instance = Inr [''orders'', ''test1'']
   \<and> StorageQueue_list_call demo_queue_sdk demo_queue_instance None
       = Inl (SdkError None ''Cannot destructure property prefix of undefined'')"
  by (simp add: demo_list1 StorageQueue_list_call_def destructure_TypeError_def)

end
